theory Spec2Isabelle
  imports Complex_Main
begin

section \<open>Data model of the px4ctrl controller\<close>

text \<open>
  The controller computes with C++ \<open>double\<close>s; the embedding computes with the reals
  (exact arithmetic).  A division whose divisor is zero gives an infinity or a NaN in the
  program and \<open>0\<close> in HOL, so every statement below that depends on the value of a
  quotient assumes its divisor to be nonzero.

  The age of a sample is the exception: the two tests of \<open>estimateThrustModel\<close> compare
  it with \<open>0.045\<close> and \<open>0.035\<close>, and at these bounds the rounding decides.  So the age
  is computed and compared in doubles, as the program does.
\<close>

text \<open>The integer nearest to \<open>r\<close>; of two nearest integers the even one.\<close>

definition round_even :: "real \<Rightarrow> int" where
  "round_even r =
     (let f = \<lfloor>r\<rfloor> in
      if r - of_int f < 1 / 2 then f
      else if 1 / 2 < r - of_int f then f + 1
      else if even f then f else f + 1)"

text \<open>The power of two with the integer exponent \<open>k\<close>.\<close>

definition pow2 :: "int \<Rightarrow> real" where
  "pow2 k = 2 powr of_int k"

text \<open>
  The double nearest to the real \<open>x\<close>, as IEEE 754 rounds to nearest, ties to even: with
  \<open>2 ^ e \<le> \<bar>x\<bar> < 2 ^ (e + 1)\<close>, a double of this size is a multiple of
  \<open>u = 2 ^ (e - 52)\<close>, and \<open>x\<close> is rounded to the nearest multiple, to the even one of
  two nearest.  This is the value of a decimal literal, and of a sum or a product of two
  doubles whose exact value is \<open>x\<close>.  The range of the exponent (overflow, subnormal
  numbers) is not modelled: the numbers rounded below are zero or between \<open>1e-9\<close> and
  \<open>2 ^ 31\<close> in size.
\<close>

definition round_double :: "real \<Rightarrow> real" where
  "round_double x =
     (if x = 0 then 0
      else
        (let e = \<lfloor>log 2 \<bar>x\<bar>\<rfloor>;
             u = pow2 (e - 52)
         in of_int (round_even (x / u)) * u))"

text \<open>
  A \<open>ros::Time\<close> is a count of nanoseconds.  The difference \<open>d\<close> of two times is a
  \<open>ros::Duration\<close>, which holds it as \<open>sec\<close> seconds and \<open>nsec\<close> nanoseconds with
  \<open>0 \<le> nsec < 1000000000\<close>, and \<open>toSec()\<close> returns
  \<open>(double)sec + 1e-9 * (double)nsec\<close>.  The two conversions are exact.  A difference
  whose seconds do not fit 32 bits (68 years) raises an exception in the program; the
  model does not have this case.
\<close>

type_synonym ros_Time = int

definition toSec :: "int \<Rightarrow> real" where
  "toSec d =
     (let sec = d div 1000000000;
          nsec = d mod 1000000000
      in round_double (of_int sec + round_double (round_double (1 / 1000000000) * of_int nsec)))"

text \<open>\<open>Eigen::Vector3d\<close>, with \<open>v(0)\<close>, \<open>v(1)\<close>, \<open>v(2)\<close>.\<close>

datatype Vector3d = Vector3d (v0: real) (v1: real) (v2: real)

text \<open>
  \<open>Eigen::Matrix3d\<close>, held by columns: \<open>col0\<close> is \<open>m.col(0)\<close>, and
  \<open>coeff m i j\<close> is \<open>m.coeff(i, j)\<close>, row \<open>i\<close> of column \<open>j\<close>.
\<close>

datatype Matrix3d = Matrix3d (col0: Vector3d) (col1: Vector3d) (col2: Vector3d)

text \<open>
  \<open>Eigen::Quaterniond\<close>; the constructor takes \<open>w\<close> first.  \<open>qw\<close>, \<open>qx\<close>, \<open>qy\<close>
  and \<open>qz\<close> are \<open>q.w()\<close>, \<open>q.x()\<close>, \<open>q.y()\<close> and \<open>q.z()\<close>.
\<close>

datatype Quaterniond = Quaterniond (qw: real) (qx: real) (qy: real) (qz: real)

text \<open>
  The inputs and the output of a control law, with the fields that the control laws use:
  \<open>des.p\<close>, \<open>des.v\<close>, \<open>des.a\<close>, \<open>des.yaw\<close>; \<open>odom.p\<close>, \<open>odom.v\<close>, \<open>odom.q\<close>;
  \<open>imu.q\<close>; \<open>u.q\<close>, \<open>u.thrust\<close>.
\<close>

record Desired_State_t =
  des_p :: Vector3d
  des_v :: Vector3d
  des_a :: Vector3d
  des_yaw :: real

record Odom_Data_t =
  odom_p :: Vector3d
  odom_v :: Vector3d
  odom_q :: Quaterniond

record Imu_Data_t =
  imu_q :: Quaterniond

record Controller_Output_t =
  u_q :: Quaterniond
  u_thrust :: real

text \<open>The fields of \<open>Parameter_t\<close> that the controller reads.\<close>

record Parameter_t =
  gra :: real
  hover_percentage :: real
  Kp0 :: real
  Kp1 :: real
  Kp2 :: real
  Kv0 :: real
  Kv1 :: real
  Kv2 :: real

text \<open>
  \<open>quadrotor_msgs::Px4ctrlDebug\<close>, the fields written by the control laws.
\<close>

record Px4ctrlDebug =
  des_v_x :: real
  des_v_y :: real
  des_v_z :: real
  des_a_x :: real
  des_a_y :: real
  des_a_z :: real
  des_q_x :: real
  des_q_y :: real
  des_q_z :: real
  des_q_w :: real
  des_thr :: real

text \<open>
  The members of \<open>ControlBase\<close>; the source writes each name with a trailing
  underscore.  \<open>timed_thrust\<close> is a \<open>std::queue\<close> of (time, thrust) pairs:
  \<open>front()\<close> is the head of the list, \<open>pop()\<close> removes the head and \<open>push\<close>
  appends at the end.  \<open>rho2\<close> is the forgetting factor.
\<close>

record ControlBase =
  param :: Parameter_t
  thr2acc :: real
  P :: real
  rho2 :: real
  timed_thrust :: "(ros_Time \<times> real) list"
  debug_msg :: Px4ctrlDebug

section \<open>The thrust model estimator\<close>

text \<open>
  The recursive least squares step of \<open>estimateThrustModel\<close> (the assignments to
  \<open>gamma\<close>, \<open>K\<close>, \<open>thr2acc\<close> and \<open>P\<close>), for the consumed thrust \<open>thr\<close> and
  the measured acceleration \<open>est_a\<close>.
\<close>

definition rls_update :: "real \<Rightarrow> Vector3d \<Rightarrow> ControlBase \<Rightarrow> ControlBase" where
  "rls_update thr est_a s =
     (let gamma = 1 / (rho2 s + thr * P s * thr);
          K = gamma * P s * thr;
          s1 = s\<lparr>thr2acc := thr2acc s + K * (v2 est_a - thr * thr2acc s)\<rparr>
      in s1\<lparr>P := (1 - K * thr) * P s1 / rho2 s1\<rparr>)"

text \<open>
  \<open>ControlBase::estimateThrustModel\<close>.  The value of \<open>ros::Time::now()\<close> is the
  argument \<open>t_now\<close>; \<open>round_double 0.045\<close> and \<open>round_double 0.035\<close> are the doubles
  of the literals \<open>0.045\<close> and \<open>0.035\<close>.  Each unfolding is one pass through the \<open>while\<close> loop; the
  result is the returned flag and the object after the call.
\<close>

function estimateThrustModel ::
  "ros_Time \<Rightarrow> Vector3d \<Rightarrow> Parameter_t \<Rightarrow> ControlBase \<Rightarrow> bool \<times> ControlBase" where
  "estimateThrustModel t_now est_a par s =
     (case timed_thrust s of
        [] \<Rightarrow> (False, s)
      | t_t # rest \<Rightarrow>
          (let time_passed = toSec (t_now - fst t_t) in
           if time_passed > round_double 0.045 then
             estimateThrustModel t_now est_a par (s\<lparr>timed_thrust := rest\<rparr>)
           else if time_passed < round_double 0.035 then (False, s)
           else
             (let thr = snd t_t
              in (True, rls_update thr est_a (s\<lparr>timed_thrust := rest\<rparr>)))))"
  by pat_completeness auto
termination
  by (relation "measure (\<lambda>(t_now, est_a, par, s). length (timed_thrust s))") auto

declare estimateThrustModel.simps [simp del]

text \<open>
  The test of the first branch of the loop: the age of the sample, in doubles, is greater
  than the double \<open>0.045\<close>.
\<close>

definition too_old :: "ros_Time \<Rightarrow> ros_Time \<times> real \<Rightarrow> bool" where
  "too_old t_now t_t = (toSec (t_now - fst t_t) > round_double 0.045)"

text \<open>
  The test of the second branch: the age of the sample, in doubles, is less than the
  double \<open>0.035\<close>.
\<close>

definition too_young :: "ros_Time \<Rightarrow> ros_Time \<times> real \<Rightarrow> bool" where
  "too_young t_now t_t = (toSec (t_now - fst t_t) < round_double 0.035)"

text \<open>\<open>ControlBase::resetThrustMapping\<close>.\<close>

definition resetThrustMapping :: "ControlBase \<Rightarrow> ControlBase" where
  "resetThrustMapping s =
     (let s1 = s\<lparr>thr2acc := gra (param s) / hover_percentage (param s)\<rparr>
      in s1\<lparr>P := 1000000\<rparr>)"

section \<open>Vector, matrix and quaternion operations\<close>

text \<open>
  The operations of the Eigen library and of \<open>cmath\<close> that the controller calls, as
  functions on the reals.  \<open>std::atan2\<close> is the angle of the point \<open>(x, y)\<close> in
  \<open>(-\<pi>, \<pi>]\<close>, and \<open>0\<close> at the origin.
\<close>

definition atan2 :: "real \<Rightarrow> real \<Rightarrow> real" where
  "atan2 y x =
     (if x > 0 then arctan (y / x)
      else if x < 0 then (if y \<ge> 0 then arctan (y / x) + pi else arctan (y / x) - pi)
      else if y > 0 then pi / 2
      else if y < 0 then - pi / 2
      else 0)"

definition vadd :: "Vector3d \<Rightarrow> Vector3d \<Rightarrow> Vector3d" where
  "vadd a b = Vector3d (v0 a + v0 b) (v1 a + v1 b) (v2 a + v2 b)"

definition vsub :: "Vector3d \<Rightarrow> Vector3d \<Rightarrow> Vector3d" where
  "vsub a b = Vector3d (v0 a - v0 b) (v1 a - v1 b) (v2 a - v2 b)"

text \<open>\<open>K.asDiagonal() * a\<close>: the components of \<open>a\<close> scaled by those of \<open>K\<close>.\<close>

definition asDiagonal_times :: "Vector3d \<Rightarrow> Vector3d \<Rightarrow> Vector3d" where
  "asDiagonal_times K a = Vector3d (v0 K * v0 a) (v1 K * v1 a) (v2 K * v2 a)"

definition dot :: "Vector3d \<Rightarrow> Vector3d \<Rightarrow> real" where
  "dot a b = v0 a * v0 b + v1 a * v1 b + v2 a * v2 b"

definition cross :: "Vector3d \<Rightarrow> Vector3d \<Rightarrow> Vector3d" where
  "cross a b =
     Vector3d (v1 a * v2 b - v2 a * v1 b) (v2 a * v0 b - v0 a * v2 b) (v0 a * v1 b - v1 a * v0 b)"

text \<open>
  \<open>a.normalized()\<close>: Eigen divides by the norm when the squared norm is positive and
  returns the vector as it is otherwise.
\<close>

definition normalized :: "Vector3d \<Rightarrow> Vector3d" where
  "normalized n =
     (let z = dot n n in
      if z > 0 then Vector3d (v0 n / sqrt z) (v1 n / sqrt z) (v2 n / sqrt z) else n)"

definition coeff :: "Matrix3d \<Rightarrow> nat \<Rightarrow> nat \<Rightarrow> real" where
  "coeff m i j =
     (let c = (if j = 0 then col0 m else if j = 1 then col1 m else col2 m)
      in if i = 0 then v0 c else if i = 1 then v1 c else v2 c)"

text \<open>\<open>a * b\<close> on quaternions: the Hamilton product.\<close>

definition quat_times :: "Quaterniond \<Rightarrow> Quaterniond \<Rightarrow> Quaterniond" where
  "quat_times a b =
     Quaterniond
       (qw a * qw b - qx a * qx b - qy a * qy b - qz a * qz b)
       (qw a * qx b + qx a * qw b + qy a * qz b - qz a * qy b)
       (qw a * qy b + qy a * qw b + qz a * qx b - qx a * qz b)
       (qw a * qz b + qz a * qw b + qx a * qy b - qy a * qx b)"

definition squaredNorm :: "Quaterniond \<Rightarrow> real" where
  "squaredNorm q = qx q * qx q + qy q * qy q + qz q * qz q + qw q * qw q"

text \<open>
  \<open>q.inverse()\<close>: the conjugate divided by the squared norm; Eigen returns the zero
  quaternion when the squared norm is not positive.
\<close>

definition quat_inverse :: "Quaterniond \<Rightarrow> Quaterniond" where
  "quat_inverse q =
     (let n2 = squaredNorm q in
      if n2 > 0 then Quaterniond (qw q / n2) (- qx q / n2) (- qy q / n2) (- qz q / n2)
      else Quaterniond 0 0 0 0)"

text \<open>
  The quaternion of \<open>Eigen::AngleAxisd(angle, axis)\<close>; a product of angle-axis
  rotations is the product of their quaternions.
\<close>

definition AngleAxisd :: "real \<Rightarrow> Vector3d \<Rightarrow> Quaterniond" where
  "AngleAxisd angle axis =
     Quaterniond (cos (angle / 2)) (sin (angle / 2) * v0 axis) (sin (angle / 2) * v1 axis)
       (sin (angle / 2) * v2 axis)"

definition UnitX :: Vector3d where "UnitX = Vector3d 1 0 0"
definition UnitY :: Vector3d where "UnitY = Vector3d 0 1 0"
definition UnitZ :: Vector3d where "UnitZ = Vector3d 0 0 1"

text \<open>\<open>q.toRotationMatrix()\<close>.\<close>

definition toRotationMatrix :: "Quaterniond \<Rightarrow> Matrix3d" where
  "toRotationMatrix q =
     (let tx = 2 * qx q; ty = 2 * qy q; tz = 2 * qz q;
          twx = tx * qw q; twy = ty * qw q; twz = tz * qw q;
          txx = tx * qx q; txy = ty * qx q; txz = tz * qx q;
          tyy = ty * qy q; tyz = tz * qy q; tzz = tz * qz q
      in Matrix3d
           (Vector3d (1 - (tyy + tzz)) (txy + twz) (txz - twy))
           (Vector3d (txy - twz) (1 - (txx + tzz)) (tyz + twx))
           (Vector3d (txz + twy) (tyz - twx) (1 - (txx + tyy))))"

text \<open>
  \<open>Eigen::Quaterniond(mat)\<close>, the quaternion of a rotation matrix: from the trace when
  it is positive, and otherwise from the largest diagonal coefficient, with index \<open>i\<close>,
  and the two indices \<open>j\<close> and \<open>k\<close> that follow it cyclically.  Index \<open>0\<close>, \<open>1\<close>, \<open>2\<close>
  of the coefficients of a quaternion is \<open>x\<close>, \<open>y\<close>, \<open>z\<close>.  The square root of a negative
  number is a NaN in the program; the statements below take a square root of \<open>1\<close> only.
\<close>

definition Quaterniond_of_matrix :: "Matrix3d \<Rightarrow> Quaterniond" where
  "Quaterniond_of_matrix mat =
     (let t = coeff mat 0 0 + coeff mat 1 1 + coeff mat 2 2 in
      if t > 0 then
        (let t1 = sqrt (t + 1);
             w = 0.5 * t1;
             t2 = 0.5 / t1
         in Quaterniond w
              ((coeff mat 2 1 - coeff mat 1 2) * t2)
              ((coeff mat 0 2 - coeff mat 2 0) * t2)
              ((coeff mat 1 0 - coeff mat 0 1) * t2))
      else
        (let i0 = (if coeff mat 1 1 > coeff mat 0 0 then 1 else 0);
             i = (if coeff mat 2 2 > coeff mat i0 i0 then 2 else i0);
             j = (i + 1) mod 3;
             k = (j + 1) mod 3;
             t1 = sqrt (coeff mat i i - coeff mat j j - coeff mat k k + 1);
             ci = 0.5 * t1;
             t2 = 0.5 / t1;
             w = (coeff mat k j - coeff mat j k) * t2;
             cj = (coeff mat j i + coeff mat i j) * t2;
             ck = (coeff mat k i + coeff mat i k) * t2;
             c = (\<lambda>n. if n = i then ci else if n = j then cj else ck)
         in Quaterniond w (c 0) (c 1) (c 2)))"

section \<open>The control laws\<close>

text \<open>\<open>ControlBase::fromQuaternion2yaw\<close>.\<close>

definition fromQuaternion2yaw :: "Quaterniond \<Rightarrow> real" where
  "fromQuaternion2yaw q =
     atan2 (2 * (qx q * qy q + qw q * qz q))
       (qw q * qw q + qx q * qx q - qy q * qy q - qz q * qz q)"

text \<open>\<open>ControlBase::computeDesiredCollectiveThrustSignal\<close>.\<close>

definition computeDesiredCollectiveThrustSignal :: "ControlBase \<Rightarrow> Vector3d \<Rightarrow> real" where
  "computeDesiredCollectiveThrustSignal s des_acc = v2 des_acc / thr2acc s"

text \<open>
  The first block of both \<open>calculateControl\<close> functions, which computes the desired
  acceleration \<open>des_acc\<close>.
\<close>

definition compute_des_acc :: "ControlBase \<Rightarrow> Desired_State_t \<Rightarrow> Odom_Data_t \<Rightarrow> Vector3d" where
  "compute_des_acc s des odom =
     (let Kp = Vector3d (Kp0 (param s)) (Kp1 (param s)) (Kp2 (param s));
          Kv = Vector3d (Kv0 (param s)) (Kv1 (param s)) (Kv2 (param s));
          des_acc = vadd (vadd (des_a des) (asDiagonal_times Kv (vsub (des_v des) (odom_v odom))))
                      (asDiagonal_times Kp (vsub (des_p des) (odom_p odom)))
      in vadd des_acc (Vector3d 0 0 (gra (param s))))"

text \<open>
  The block of both \<open>calculateControl\<close> functions that fills \<open>debug_msg\<close> from
  \<open>des.v\<close>, \<open>des_acc\<close> and the output \<open>u\<close>.
\<close>

definition fill_debug_msg ::
  "Desired_State_t \<Rightarrow> Vector3d \<Rightarrow> Controller_Output_t \<Rightarrow> Px4ctrlDebug \<Rightarrow> Px4ctrlDebug" where
  "fill_debug_msg des des_acc u d =
     d\<lparr>des_v_x := v0 (des_v des), des_v_y := v1 (des_v des), des_v_z := v2 (des_v des),
       des_a_x := v0 des_acc, des_a_y := v1 des_acc, des_a_z := v2 des_acc,
       des_q_x := qx (u_q u), des_q_y := qy (u_q u), des_q_z := qz (u_q u),
       des_q_w := qw (u_q u),
       des_thr := u_thrust u\<rparr>"

text \<open>The loop \<open>while (timed_thrust_.size() > 100) timed_thrust_.pop();\<close>.\<close>

function pop_over_100 :: "(ros_Time \<times> real) list \<Rightarrow> (ros_Time \<times> real) list" where
  "pop_over_100 q = (if length q > 100 then pop_over_100 (tl q) else q)"
  by pat_completeness auto
termination
  by (relation "measure length") auto

declare pop_over_100.simps [simp del]

text \<open>
  The last block of both \<open>calculateControl\<close> functions: the thrust is pushed with the
  time of the call, and the queue is cut to 100 samples.
\<close>

definition push_timed_thrust :: "ros_Time \<Rightarrow> real \<Rightarrow> ControlBase \<Rightarrow> ControlBase" where
  "push_timed_thrust t_now thr s =
     (let s1 = s\<lparr>timed_thrust := timed_thrust s @ [(t_now, thr)]\<rparr>
      in s1\<lparr>timed_thrust := pop_over_100 (timed_thrust s1)\<rparr>)"

text \<open>
  The attitude that \<open>LinearControl::calculateControl\<close> builds from the desired
  acceleration before the frame correction (the local \<open>q\<close>).
\<close>

definition LinearControl_q ::
  "ControlBase \<Rightarrow> Desired_State_t \<Rightarrow> Odom_Data_t \<Rightarrow> Vector3d \<Rightarrow> Quaterniond" where
  "LinearControl_q s des odom des_acc =
     (let yaw_odom = fromQuaternion2yaw (odom_q odom);
          sin_yaw = sin yaw_odom;
          cos_yaw = cos yaw_odom;
          roll = (v0 des_acc * sin_yaw - v1 des_acc * cos_yaw) / gra (param s);
          pitch = (v0 des_acc * cos_yaw + v1 des_acc * sin_yaw) / gra (param s)
      in quat_times (quat_times (AngleAxisd (des_yaw des) UnitZ) (AngleAxisd pitch UnitY))
           (AngleAxisd roll UnitX))"

text \<open>
  \<open>LinearControl::calculateControl\<close>.  The time \<open>ros::Time::now()\<close> is the argument
  \<open>t_now\<close>; the result is the returned debug message, the output \<open>u\<close> and the object
  after the call.  The local \<open>yaw_imu\<close> of the source is computed and never read.
\<close>

definition LinearControl_calculateControl ::
  "ros_Time \<Rightarrow> Desired_State_t \<Rightarrow> Odom_Data_t \<Rightarrow> Imu_Data_t \<Rightarrow> Controller_Output_t \<Rightarrow>
   ControlBase \<Rightarrow> Px4ctrlDebug \<times> Controller_Output_t \<times> ControlBase" where
  "LinearControl_calculateControl t_now des odom imu u s =
     (let des_acc = compute_des_acc s des odom;
          u1 = u\<lparr>u_thrust := computeDesiredCollectiveThrustSignal s des_acc\<rparr>;
          q = LinearControl_q s des odom des_acc;
          u2 = u1\<lparr>u_q := quat_times (quat_times (imu_q imu) (quat_inverse (odom_q odom))) q\<rparr>;
          s1 = s\<lparr>debug_msg := fill_debug_msg des des_acc u2 (debug_msg s)\<rparr>;
          s2 = push_timed_thrust t_now (u_thrust u2) s1
      in (debug_msg s2, u2, s2))"

text \<open>
  The desired rotation matrix \<open>R_des\<close> of \<open>GeometricControl::calculateControl\<close>, with
  columns \<open>b2c.cross(b3c)\<close>, \<open>b2c\<close> and \<open>b3c\<close>.  For a desired acceleration that is a
  nonzero multiple of \<open>a_yaw\<close> the product \<open>b3c.cross(a_yaw)\<close> is zero over the reals,
  while the doubles of the program may leave a residue of rounding, which
  \<open>normalized()\<close> makes a unit vector; no statement below is about such an input.  For
  the desired acceleration zero all the vectors are zero in the program as well.
\<close>

definition GeometricControl_R_des :: "Desired_State_t \<Rightarrow> Vector3d \<Rightarrow> Matrix3d" where
  "GeometricControl_R_des des des_acc =
     (let b3c = normalized des_acc;
          a_yaw = Vector3d (cos (des_yaw des)) (sin (des_yaw des)) 0;
          b2c = normalized (cross b3c a_yaw)
      in Matrix3d (cross b2c b3c) b2c b3c)"

text \<open>
  \<open>GeometricControl::calculateControl\<close>, with the same arguments and result.  The two
  lines printed to \<open>std::cout\<close> are not part of the model.
\<close>

definition GeometricControl_calculateControl ::
  "ros_Time \<Rightarrow> Desired_State_t \<Rightarrow> Odom_Data_t \<Rightarrow> Imu_Data_t \<Rightarrow> Controller_Output_t \<Rightarrow>
   ControlBase \<Rightarrow> Px4ctrlDebug \<times> Controller_Output_t \<times> ControlBase" where
  "GeometricControl_calculateControl t_now des odom imu u s =
     (let des_acc = compute_des_acc s des odom;
          b3 = col2 (toRotationMatrix (odom_q odom));
          u1 = u\<lparr>u_thrust := dot des_acc b3 / thr2acc s\<rparr>;
          q = Quaterniond_of_matrix (GeometricControl_R_des des des_acc);
          u2 = u1\<lparr>u_q := quat_times (quat_times (imu_q imu) (quat_inverse (odom_q odom))) q\<rparr>;
          s1 = s\<lparr>debug_msg := fill_debug_msg des des_acc u2 (debug_msg s)\<rparr>;
          s2 = push_timed_thrust t_now (u_thrust u2) s1
      in (debug_msg s2, u2, s2))"

text \<open>
  The two classes derived from \<open>ControlBase\<close>, and the virtual call of
  \<open>calculateControl\<close>.
\<close>

datatype control_law = LinearControl | GeometricControl

definition calculateControl ::
  "control_law \<Rightarrow> ros_Time \<Rightarrow> Desired_State_t \<Rightarrow> Odom_Data_t \<Rightarrow> Imu_Data_t \<Rightarrow>
   Controller_Output_t \<Rightarrow> ControlBase \<Rightarrow> Px4ctrlDebug \<times> Controller_Output_t \<times> ControlBase" where
  "calculateControl law =
     (case law of
        LinearControl \<Rightarrow> LinearControl_calculateControl
      | GeometricControl \<Rightarrow> GeometricControl_calculateControl)"

text \<open>
  A run of control cycles: \<open>calculateControl\<close> is called once for each element of the
  list, with the time of the call and the inputs of that cycle, on the output and the
  object that the cycle before has left.
\<close>

type_synonym cycle = "ros_Time \<times> Desired_State_t \<times> Odom_Data_t \<times> Imu_Data_t"

fun run_cycles ::
  "control_law \<Rightarrow> cycle list \<Rightarrow> Controller_Output_t \<Rightarrow> ControlBase \<Rightarrow>
   Controller_Output_t \<times> ControlBase" where
  "run_cycles law [] u s = (u, s)"
| "run_cycles law ((t_now, des, odom, imu) # cycles) u s =
     (case calculateControl law t_now des odom imu u s of
        (d, u', s') \<Rightarrow> run_cycles law cycles u' s')"

text \<open>The sample that a cycle pushes when it runs on the object \<open>s\<close>.\<close>

definition sample_of :: "control_law \<Rightarrow> Controller_Output_t \<Rightarrow> ControlBase \<Rightarrow> cycle \<Rightarrow> ros_Time \<times> real" where
  "sample_of law u s c =
     (case c of (t_now, des, odom, imu) \<Rightarrow>
        (t_now, u_thrust (fst (snd (calculateControl law t_now des odom imu u s)))))"

section \<open>Example inputs\<close>

definition example_param :: Parameter_t where
  "example_param =
     \<lparr>gra = 10, hover_percentage = 1 / 2,
      Kp0 = 1, Kp1 = 1, Kp2 = 1, Kv0 = 2, Kv1 = 2, Kv2 = 2\<rparr>"

definition example_debug :: Px4ctrlDebug where
  "example_debug =
     \<lparr>des_v_x = 0, des_v_y = 0, des_v_z = 0, des_a_x = 0, des_a_y = 0, des_a_z = 0,
      des_q_x = 0, des_q_y = 0, des_q_z = 0, des_q_w = 0, des_thr = 0\<rparr>"

text \<open>
  An object with the gain \<open>gra / hover_percentage\<close>, a small covariance, the forgetting
  factor \<open>0.998\<close> and the history \<open>q\<close>.
\<close>

definition example_ctrl :: "(ros_Time \<times> real) list \<Rightarrow> ControlBase" where
  "example_ctrl q =
     \<lparr>param = example_param, thr2acc = 20, P = 1 / 1000, rho2 = 998 / 1000,
      timed_thrust = q, debug_msg = example_debug\<rparr>"

text \<open>A desired state at rest at the origin, with the acceleration \<open>a\<close> and the yaw \<open>0\<close>.\<close>

definition example_des :: "Vector3d \<Rightarrow> Desired_State_t" where
  "example_des a = \<lparr>des_p = Vector3d 0 0 0, des_v = Vector3d 0 0 0, des_a = a, des_yaw = 0\<rparr>"

text \<open>An odometry at rest at the origin, with the orientation \<open>q\<close>.\<close>

definition example_odom :: "Quaterniond \<Rightarrow> Odom_Data_t" where
  "example_odom q = \<lparr>odom_p = Vector3d 0 0 0, odom_v = Vector3d 0 0 0, odom_q = q\<rparr>"

definition example_imu :: "Quaterniond \<Rightarrow> Imu_Data_t" where
  "example_imu q = \<lparr>imu_q = q\<rparr>"

definition example_u :: Controller_Output_t where
  "example_u = \<lparr>u_q = Quaterniond 1 0 0 0, u_thrust = 0\<rparr>"

section \<open>Lemmas on the rounding to doubles\<close>

lemma round_even_le: "r \<le> of_int j \<Longrightarrow> round_even r \<le> j"
proof -
  assume a: "r \<le> of_int j"
  show ?thesis
  proof (cases "r = of_int j")
    case True
    then show ?thesis by (simp add: round_even_def)
  next
    case False
    with a have "r < of_int j" by simp
    then have "\<lfloor>r\<rfloor> < j" by (simp add: floor_less_iff)
    then show ?thesis by (simp add: round_even_def Let_def)
  qed
qed

lemma round_even_ge: "of_int j \<le> r \<Longrightarrow> j \<le> round_even r"
proof -
  assume "of_int j \<le> r"
  then have "j \<le> \<lfloor>r\<rfloor>" by (simp add: le_floor_iff)
  then show ?thesis by (simp add: round_even_def Let_def)
qed

lemma pow2_pos: "0 < pow2 k"
  by (simp add: pow2_def)

lemma pow2_add: "pow2 (a + b) = pow2 a * pow2 b"
  by (simp add: pow2_def powr_add)

lemma pow2_nat: "pow2 (int n) = 2 ^ n"
  by (simp add: pow2_def powr_realpow)

lemma pow2_less: "pow2 a < pow2 b \<longleftrightarrow> a < b"
  by (simp add: pow2_def)

lemma pow2_le: "pow2 a \<le> pow2 b \<longleftrightarrow> a \<le> b"
  by (simp add: pow2_def)

lemma pow2_neg: "pow2 (- int n) = 1 / 2 ^ n"
  by (simp add: pow2_def powr_minus powr_realpow inverse_eq_divide)

lemma exponent_bounds:
  assumes "0 < x"
  shows "pow2 \<lfloor>log 2 x\<rfloor> \<le> x \<and> x < pow2 (\<lfloor>log 2 x\<rfloor> + 1)"
  using floor_log_eq_powr_iff [of x 2 "\<lfloor>log 2 x\<rfloor>"] assms
  by (simp add: pow2_def)

lemma round_double_pos:
  assumes "0 < x"
  shows "round_double x =
    of_int (round_even (x / pow2 (\<lfloor>log 2 x\<rfloor> - 52))) * pow2 (\<lfloor>log 2 x\<rfloor> - 52)"
  using assms by (simp add: round_double_def Let_def)

lemma multiple_of_ulp:
  assumes "0 < m" and "m < 2 ^ 53" and "pow2 e \<le> of_int m * pow2 k"
  shows "of_int m * pow2 k / pow2 (e - 52) = of_int (m * 2 ^ nat (k - e + 52))"
proof -
  have "of_int m * pow2 k < pow2 53 * pow2 k"
  proof -
    have "real_of_int m < 2 ^ 53" using assms(2) by simp
    also have "\<dots> = pow2 53" using pow2_nat [of 53] by simp
    finally show ?thesis using pow2_pos [of k] by simp
  qed
  with assms(3) have "pow2 e < pow2 (53 + k)" by (simp add: pow2_add)
  then have ek: "e < 53 + k" by (simp add: pow2_less)
  define n where "n = nat (k - e + 52)"
  have "k = (e - 52) + int n" using ek by (simp add: n_def)
  then have "pow2 k = pow2 ((e - 52) + int n)"
    by (rule arg_cong [where f = pow2])
  then have "pow2 k = pow2 (e - 52) * 2 ^ n"
    by (simp only: pow2_add pow2_nat)
  then have "pow2 k / pow2 (e - 52) = 2 ^ n"
    using pow2_pos [of "e - 52"] by simp
  then have "of_int m * (pow2 k / pow2 (e - 52)) = of_int m * 2 ^ n"
    by (simp only:)
  then have "of_int m * pow2 k / pow2 (e - 52) = of_int m * 2 ^ n"
    by (simp only: times_divide_eq_right)
  then show ?thesis by (simp add: n_def)
qed

lemma round_double_le:
  assumes "0 \<le> x" and "0 < m" and "m < 2 ^ 53" and "x \<le> of_int m * pow2 k"
  shows "round_double x \<le> of_int m * pow2 k"
proof (cases "x = 0")
  case True
  then show ?thesis using assms(2) pow2_pos [of k] by (simp add: round_double_def)
next
  case False
  with assms(1) have x: "0 < x" by simp
  define e where "e = \<lfloor>log 2 x\<rfloor>"
  define u where "u = pow2 (e - 52)"
  have u: "0 < u" by (simp add: u_def pow2_pos)
  from exponent_bounds [OF x] have "pow2 e \<le> x" by (simp add: e_def)
  with assms(4) have "pow2 e \<le> of_int m * pow2 k" by simp
  from multiple_of_ulp [OF assms(2,3) this]
  have y: "of_int m * pow2 k / u = of_int (m * 2 ^ nat (k - e + 52))" by (simp add: u_def)
  have "x / u \<le> of_int m * pow2 k / u"
    using assms(4) u by (simp add: divide_right_mono)
  then have "round_even (x / u) \<le> m * 2 ^ nat (k - e + 52)"
    unfolding y by (rule round_even_le)
  then have "real_of_int (round_even (x / u)) \<le> of_int (m * 2 ^ nat (k - e + 52))"
    by (simp only: of_int_le_iff)
  then have "of_int (round_even (x / u)) * u \<le> of_int m * pow2 k / u * u"
    unfolding y using u by (simp only: mult_right_mono less_imp_le)
  then show ?thesis
    using u by (simp add: round_double_pos [OF x] e_def [symmetric] u_def [symmetric])
qed

lemma round_double_ge:
  assumes "0 < m" and "m < 2 ^ 53" and "of_int m * pow2 k \<le> x"
  shows "of_int m * pow2 k \<le> round_double x"
proof -
  have y0: "0 < of_int m * pow2 k" using assms(1) pow2_pos [of k] by simp
  with assms(3) have x: "0 < x" by simp
  define e where "e = \<lfloor>log 2 x\<rfloor>"
  define u where "u = pow2 (e - 52)"
  have u: "0 < u" by (simp add: u_def pow2_pos)
  have rd: "round_double x = of_int (round_even (x / u)) * u"
    by (simp add: round_double_pos [OF x] e_def [symmetric] u_def [symmetric])
  show ?thesis
  proof (cases "pow2 e \<le> of_int m * pow2 k")
    case True
    from multiple_of_ulp [OF assms(1,2) this]
    have y: "of_int m * pow2 k / u = of_int (m * 2 ^ nat (k - e + 52))" by (simp add: u_def)
    have "of_int m * pow2 k / u \<le> x / u"
      using assms(3) u by (simp add: divide_right_mono)
    then have "m * 2 ^ nat (k - e + 52) \<le> round_even (x / u)"
      unfolding y by (rule round_even_ge)
    then have "real_of_int (m * 2 ^ nat (k - e + 52)) \<le> of_int (round_even (x / u))"
      by (simp only: of_int_le_iff)
    then have "of_int m * pow2 k / u * u \<le> of_int (round_even (x / u)) * u"
      unfolding y using u by (simp only: mult_right_mono less_imp_le)
    then show ?thesis using u by (simp add: rd)
  next
    case False
    from exponent_bounds [OF x] have "pow2 e \<le> x" by (simp add: e_def)
    have "pow2 e = 2 ^ 52 * u"
      using pow2_add [of 52 "e - 52"] pow2_nat [of 52] by (simp add: u_def)
    with \<open>pow2 e \<le> x\<close> u have "of_int (2 ^ 52) \<le> x / u"
      by (simp add: pos_le_divide_eq)
    then have "2 ^ 52 \<le> round_even (x / u)" by (rule round_even_ge)
    then have "real_of_int (2 ^ 52) \<le> of_int (round_even (x / u))"
      by (simp only: of_int_le_iff)
    then have "of_int (2 ^ 52) * u \<le> of_int (round_even (x / u)) * u"
      using u by (simp only: mult_right_mono less_imp_le)
    with \<open>pow2 e = 2 ^ 52 * u\<close> False show ?thesis by (simp add: rd)
  qed
qed

lemma round_double_nonneg: "0 \<le> x \<Longrightarrow> 0 \<le> round_double x"
proof -
  assume "0 \<le> x"
  have "0 \<le> round_even (x / pow2 (\<lfloor>log 2 \<bar>x\<bar>\<rfloor> - 52))"
    using \<open>0 \<le> x\<close> pow2_pos [of "\<lfloor>log 2 \<bar>x\<bar>\<rfloor> - 52"] by (intro round_even_ge) simp
  then show ?thesis
    using pow2_pos [of "\<lfloor>log 2 \<bar>x\<bar>\<rfloor> - 52"] by (simp add: round_double_def Let_def)
qed

lemma round_double_nonpos: "x \<le> 0 \<Longrightarrow> round_double x \<le> 0"
proof -
  assume "x \<le> 0"
  have "round_even (x / pow2 (\<lfloor>log 2 \<bar>x\<bar>\<rfloor> - 52)) \<le> 0"
    using \<open>x \<le> 0\<close> pow2_pos [of "\<lfloor>log 2 \<bar>x\<bar>\<rfloor> - 52"]
    by (intro round_even_le) (simp add: divide_nonpos_pos)
  then show ?thesis
    using pow2_pos [of "\<lfloor>log 2 \<bar>x\<bar>\<rfloor> - 52"]
    by (simp add: round_double_def Let_def mult_nonpos_nonneg)
qed

lemma round_double_small:
  assumes "1 \<le> x * 2 ^ k" and "x * 2 ^ k < 2" and "round_even (x * 2 ^ (k + 52)) = m"
  shows "round_double x = of_int m / 2 ^ (k + 52)"
proof -
  have p: "(0::real) < 2 ^ k" by simp
  have "0 < x * 2 ^ k" using assms(1) by linarith
  then have x: "0 < x" by (simp add: zero_less_mult_iff)
  have "pow2 (- int k) \<le> x" using assms(1) by (simp add: pow2_neg pos_divide_le_eq)
  moreover have "x < pow2 (- int k + 1)"
  proof -
    have "pow2 (- int k + 1) = 2 / 2 ^ k"
      using pow2_add [of "- int k" 1] pow2_nat [of 1] by (simp add: pow2_neg)
    then show ?thesis using assms(2) by (simp add: pos_less_divide_eq)
  qed
  ultimately have e: "\<lfloor>log 2 x\<rfloor> = - int k"
    using floor_log_eq_powr_iff [of x 2 "- int k"] x by (simp add: pow2_def)
  have "- int k - 52 = - int (k + 52)" by simp
  then have u: "pow2 (- int k - 52) = 1 / 2 ^ (k + 52)"
    by (simp only: pow2_neg)
  show ?thesis
    using assms(3) by (simp add: round_double_pos [OF x] e u)
qed

lemma double_1e_9: "round_double (1 / 1000000000) = 4835703278458517 / 2 ^ 82"
  using round_double_small [of "1 / 1000000000" 30 4835703278458517]
  by (simp add: round_even_def Let_def)

lemma double_0_045: "round_double 0.045 = 6485183463413514 / 2 ^ 57"
  using round_double_small [of "0.045" 5 6485183463413514]
  by (simp add: round_even_def Let_def)

lemma double_0_035: "round_double 0.035 = 5044031582654956 / 2 ^ 57"
  using round_double_small [of "0.035" 5 5044031582654956]
  by (simp add: round_even_def Let_def)

lemma double_45ms:
  "round_double (4835703278458517 / 2 ^ 82 * 45000000) = 6485183463413515 / 2 ^ 57"
  using round_double_small [of "4835703278458517 / 2 ^ 82 * 45000000" 5 6485183463413515]
  by (simp add: round_even_def Let_def)

lemma double_35ms:
  "round_double (4835703278458517 / 2 ^ 82 * 35000000) = 5044031582654956 / 2 ^ 57"
  using round_double_small [of "4835703278458517 / 2 ^ 82 * 35000000" 5 5044031582654956]
  by (simp add: round_even_def Let_def)

lemma round_twice_le:
  assumes "0 \<le> x" and "0 < m" and "m < 2 ^ 53" and "x \<le> of_int m * pow2 k"
  shows "round_double (round_double x) \<le> of_int m * pow2 k"
  by (intro round_double_le round_double_nonneg assms)

lemma round_twice_ge:
  assumes "0 < m" and "m < 2 ^ 53" and "of_int m * pow2 k \<le> x"
  shows "of_int m * pow2 k \<le> round_double (round_double x)"
  by (intro round_double_ge assms)

lemma toSec_subsecond:
  assumes "0 \<le> d" and "d < 1000000000"
  shows "toSec d = round_double (round_double (4835703278458517 / 2 ^ 82 * of_int d))"
  using assms by (simp add: toSec_def Let_def double_1e_9)

lemma toSec_seconds:
  assumes "1000000000 \<le> d"
  shows "1 \<le> toSec d"
proof -
  define sec where "sec = d div 1000000000"
  define z where "z = round_double (round_double (1 / 1000000000) * of_int (d mod 1000000000))"
  have "0 < sec" unfolding sec_def using assms by (simp add: pos_imp_zdiv_pos_iff)
  then have "1 \<le> sec" by simp
  moreover have "0 \<le> z"
    unfolding z_def by (intro round_double_nonneg mult_nonneg_nonneg) (simp_all add: double_1e_9)
  ultimately have "of_int 1 * pow2 0 \<le> of_int sec + z"
    using pow2_nat [of 0] by simp
  then have "of_int 1 * pow2 0 \<le> round_double (of_int sec + z)"
    by (intro round_double_ge) simp_all
  then show ?thesis
    using pow2_nat [of 0] by (simp add: toSec_def Let_def sec_def z_def)
qed

lemma toSec_negative:
  assumes "d < 0"
  shows "toSec d \<le> 0"
proof -
  define sec where "sec = d div 1000000000"
  define n where "n = d mod 1000000000"
  define z where "z = round_double (round_double (1 / 1000000000) * of_int n)"
  have "0 \<le> n" unfolding n_def by (rule pos_mod_sign) simp
  moreover have "n < 1000000000" unfolding n_def by (rule pos_mod_bound) simp
  ultimately have n: "0 \<le> n" "n \<le> 999999999" by simp_all
  have "sec < 0" unfolding sec_def using assms by (rule div_neg_pos_less0) simp
  then have "sec \<le> - 1" by simp
  have "4835703278458517 / 2 ^ 82 * real_of_int n \<le> 4835703278458517 / 2 ^ 82 * 999999999"
    using n(2) by (intro mult_left_mono) simp_all
  also have "\<dots> \<le> of_int 1 * pow2 0" using pow2_nat [of 0] by simp
  finally have "z \<le> of_int 1 * pow2 0"
    unfolding z_def double_1e_9 using n(1) by (intro round_double_le) simp_all
  with \<open>sec \<le> - 1\<close> have "of_int sec + z \<le> 0"
    using pow2_nat [of 0] by simp
  then have "round_double (of_int sec + z) \<le> 0" by (rule round_double_nonpos)
  then show ?thesis by (simp add: toSec_def Let_def sec_def z_def n_def)
qed

lemma scaled_mono:
  "a \<le> b \<Longrightarrow> 4835703278458517 / 2 ^ 82 * real_of_int a \<le> 4835703278458517 / 2 ^ 82 * real_of_int b"
  by (intro mult_left_mono) simp_all

lemma toSec_gt_value: "6485183463413514 / 2 ^ 57 < toSec d \<longleftrightarrow> 45000000 \<le> d"
proof -
  consider "d < 0" | "0 \<le> d" "d \<le> 44999999" | "d = 45000000"
    | "45000001 \<le> d" "d < 1000000000" | "1000000000 \<le> d"
    by linarith
  then show ?thesis
  proof cases
    case 1
    from toSec_negative [OF 1] have "toSec d < 6485183463413514 / 2 ^ 57"
      by simp
    with 1 show ?thesis by simp
  next
    case 2
    have "4835703278458517 / 2 ^ 82 * real_of_int d \<le> 4835703278458517 / 2 ^ 82 * real_of_int 44999999"
      using 2(2) by (rule scaled_mono)
    also have "\<dots> \<le> of_int 6485183463413514 * pow2 (- int 57)"
      unfolding pow2_neg by simp
    finally have le: "4835703278458517 / 2 ^ 82 * real_of_int d \<le>
        of_int 6485183463413514 * pow2 (- int 57)" .
    have nn: "0 \<le> 4835703278458517 / 2 ^ 82 * real_of_int d"
      using 2(1) by simp
    have lt: "d < 1000000000" using 2(2) by simp
    have "round_double (round_double (4835703278458517 / 2 ^ 82 * real_of_int d)) \<le>
        of_int 6485183463413514 * pow2 (- int 57)"
      by (rule round_twice_le [OF nn _ _ le]) simp_all
    then have "toSec d \<le> of_int 6485183463413514 * pow2 (- int 57)"
      by (simp only: toSec_subsecond [OF 2(1) lt])
    moreover have "of_int 6485183463413514 * pow2 (- int 57) = 6485183463413514 / 2 ^ 57"
      unfolding pow2_neg by simp
    ultimately show ?thesis using 2 by simp
  next
    case 3
    have z: "toSec d = round_double (round_double (4835703278458517 / 2 ^ 82 * real_of_int 45000000))"
      unfolding 3 by (rule toSec_subsecond) simp_all
    have e: "round_double (4835703278458517 / 2 ^ 82 * real_of_int 45000000) = 6485183463413515 / 2 ^ 57"
      by (simp only: of_int_numeral double_45ms)
    have v: "of_int 6485183463413515 * pow2 (- int 57) = 6485183463413515 / 2 ^ 57"
      unfolding pow2_neg by simp
    have "of_int 6485183463413515 * pow2 (- int 57) \<le> round_double (of_int 6485183463413515 * pow2 (- int 57))"
      by (intro round_double_ge) simp_all
    then have "6485183463413515 / 2 ^ 57 \<le> round_double (6485183463413515 / 2 ^ 57)"
      by (simp only: v)
    then have "6485183463413515 / 2 ^ 57 \<le> toSec d"
      by (simp only: z e)
    moreover have "6485183463413514 / 2 ^ 57 < (6485183463413515 / 2 ^ 57 :: real)" by simp
    ultimately have "6485183463413514 / 2 ^ 57 < toSec d" by (rule less_le_trans [rotated])
    with 3 show ?thesis by simp
  next
    case 4
    have "of_int 6485183463413515 * pow2 (- int 57) \<le>
        4835703278458517 / 2 ^ 82 * real_of_int 45000001"
      unfolding pow2_neg by simp
    also have "\<dots> \<le> 4835703278458517 / 2 ^ 82 * real_of_int d"
      using 4(1) by (rule scaled_mono)
    finally have ge: "of_int 6485183463413515 * pow2 (- int 57) \<le>
        4835703278458517 / 2 ^ 82 * real_of_int d" .
    have nn: "0 \<le> d" using 4(1) by simp
    have "of_int 6485183463413515 * pow2 (- int 57) \<le>
        round_double (round_double (4835703278458517 / 2 ^ 82 * real_of_int d))"
      by (rule round_twice_ge [OF _ _ ge]) simp_all
    then have "of_int 6485183463413515 * pow2 (- int 57) \<le> toSec d"
      by (simp only: toSec_subsecond [OF nn 4(2)])
    moreover have "of_int 6485183463413515 * pow2 (- int 57) = 6485183463413515 / 2 ^ 57"
      unfolding pow2_neg by simp
    ultimately show ?thesis using 4 by simp
  next
    case 5
    from toSec_seconds [OF 5] have "6485183463413514 / 2 ^ 57 < toSec d"
      by simp
    with 5 show ?thesis by simp
  qed
qed

lemma toSec_lt_value: "toSec d < 5044031582654956 / 2 ^ 57 \<longleftrightarrow> d < 35000000"
proof -
  consider "d < 0" | "0 \<le> d" "d \<le> 34999999" | "d = 35000000"
    | "35000001 \<le> d" "d < 1000000000" | "1000000000 \<le> d"
    by linarith
  then show ?thesis
  proof cases
    case 1
    from toSec_negative [OF 1] have "toSec d < 5044031582654956 / 2 ^ 57"
      by simp
    with 1 show ?thesis by simp
  next
    case 2
    have "4835703278458517 / 2 ^ 82 * real_of_int d \<le> 4835703278458517 / 2 ^ 82 * real_of_int 34999999"
      using 2(2) by (rule scaled_mono)
    also have "\<dots> \<le> of_int 5044031582654955 * pow2 (- int 57)"
      unfolding pow2_neg by simp
    finally have le: "4835703278458517 / 2 ^ 82 * real_of_int d \<le>
        of_int 5044031582654955 * pow2 (- int 57)" .
    have nn: "0 \<le> 4835703278458517 / 2 ^ 82 * real_of_int d"
      using 2(1) by simp
    have lt: "d < 1000000000" using 2(2) by simp
    have "round_double (round_double (4835703278458517 / 2 ^ 82 * real_of_int d)) \<le>
        of_int 5044031582654955 * pow2 (- int 57)"
      by (rule round_twice_le [OF nn _ _ le]) simp_all
    then have "toSec d \<le> of_int 5044031582654955 * pow2 (- int 57)"
      by (simp only: toSec_subsecond [OF 2(1) lt])
    moreover have "of_int 5044031582654955 * pow2 (- int 57) = 5044031582654955 / 2 ^ 57"
      unfolding pow2_neg by simp
    ultimately show ?thesis using 2 by simp
  next
    case 3
    have z: "toSec d = round_double (round_double (4835703278458517 / 2 ^ 82 * real_of_int 35000000))"
      unfolding 3 by (rule toSec_subsecond) simp_all
    have e: "round_double (4835703278458517 / 2 ^ 82 * real_of_int 35000000) = 5044031582654956 / 2 ^ 57"
      by (simp only: of_int_numeral double_35ms)
    have v: "of_int 5044031582654956 * pow2 (- int 57) = 5044031582654956 / 2 ^ 57"
      unfolding pow2_neg by simp
    have "of_int 5044031582654956 * pow2 (- int 57) \<le> round_double (of_int 5044031582654956 * pow2 (- int 57))"
      by (intro round_double_ge) simp_all
    then have "5044031582654956 / 2 ^ 57 \<le> round_double (5044031582654956 / 2 ^ 57)"
      by (simp only: v)
    then have "5044031582654956 / 2 ^ 57 \<le> toSec d"
      by (simp only: z e)
    then have "\<not> toSec d < 5044031582654956 / 2 ^ 57" by simp
    with 3 show ?thesis by simp
  next
    case 4
    have "of_int 5044031582654956 * pow2 (- int 57) \<le>
        4835703278458517 / 2 ^ 82 * real_of_int 35000001"
      unfolding pow2_neg by simp
    also have "\<dots> \<le> 4835703278458517 / 2 ^ 82 * real_of_int d"
      using 4(1) by (rule scaled_mono)
    finally have ge: "of_int 5044031582654956 * pow2 (- int 57) \<le>
        4835703278458517 / 2 ^ 82 * real_of_int d" .
    have nn: "0 \<le> d" using 4(1) by simp
    have "of_int 5044031582654956 * pow2 (- int 57) \<le>
        round_double (round_double (4835703278458517 / 2 ^ 82 * real_of_int d))"
      by (rule round_twice_ge [OF _ _ ge]) simp_all
    then have "of_int 5044031582654956 * pow2 (- int 57) \<le> toSec d"
      by (simp only: toSec_subsecond [OF nn 4(2)])
    moreover have "of_int 5044031582654956 * pow2 (- int 57) = 5044031582654956 / 2 ^ 57"
      unfolding pow2_neg by simp
    ultimately show ?thesis using 4 by simp
  next
    case 5
    from toSec_seconds [OF 5] have "\<not> toSec d < 5044031582654956 / 2 ^ 57"
      by simp
    with 5 show ?thesis by simp
  qed
qed

lemma toSec_gt_0_045: "round_double 0.045 < toSec d \<longleftrightarrow> 45000000 \<le> d"
  by (simp only: double_0_045 toSec_gt_value)

lemma toSec_lt_0_035: "toSec d < round_double 0.035 \<longleftrightarrow> d < 35000000"
  by (simp only: double_0_035 toSec_lt_value)

lemma too_old_iff: "too_old t_now t_t \<longleftrightarrow> 45000000 \<le> t_now - fst t_t"
  by (simp only: too_old_def toSec_gt_0_045)

lemma too_young_iff: "too_young t_now t_t \<longleftrightarrow> t_now - fst t_t < 35000000"
  by (simp only: too_young_def toSec_lt_0_035)

section \<open>Lemmas on the estimator\<close>

lemma estimateThrustModel_Nil:
  "timed_thrust s = [] \<Longrightarrow> estimateThrustModel t_now est_a par s = (False, s)"
  by (simp add: estimateThrustModel.simps [of t_now est_a par s])

lemma estimateThrustModel_Cons:
  "timed_thrust s = t_t # rest \<Longrightarrow>
   estimateThrustModel t_now est_a par s =
     (if too_old t_now t_t then estimateThrustModel t_now est_a par (s\<lparr>timed_thrust := rest\<rparr>)
      else if too_young t_now t_t then (False, s)
      else (True, rls_update (snd t_t) est_a (s\<lparr>timed_thrust := rest\<rparr>)))"
  by (simp add: estimateThrustModel.simps [of t_now est_a par s] too_old_def too_young_def)

lemma estimateThrustModel_queue:
  "estimateThrustModel t_now est_a par (s\<lparr>timed_thrust := q\<rparr>) =
     (case dropWhile (too_old t_now) q of
        [] \<Rightarrow> (False, s\<lparr>timed_thrust := []\<rparr>)
      | t_t # rest \<Rightarrow>
          if too_young t_now t_t then (False, s\<lparr>timed_thrust := t_t # rest\<rparr>)
          else (True, rls_update (snd t_t) est_a (s\<lparr>timed_thrust := rest\<rparr>)))"
proof (induction q)
  case Nil
  show ?case by (simp add: estimateThrustModel_Nil)
next
  case (Cons t_t rest)
  have "timed_thrust (s\<lparr>timed_thrust := t_t # rest\<rparr>) = t_t # rest" by simp
  from estimateThrustModel_Cons [OF this, of t_now est_a par] Cons.IH
  show ?case by simp
qed

lemma estimateThrustModel_scan:
  "estimateThrustModel t_now est_a par s =
     (case dropWhile (too_old t_now) (timed_thrust s) of
        [] \<Rightarrow> (False, s\<lparr>timed_thrust := []\<rparr>)
      | t_t # rest \<Rightarrow>
          if too_young t_now t_t then (False, s\<lparr>timed_thrust := t_t # rest\<rparr>)
          else (True, rls_update (snd t_t) est_a (s\<lparr>timed_thrust := rest\<rparr>)))"
  using estimateThrustModel_queue [where s = s and q = "timed_thrust s"] by simp

lemma timed_thrust_rls_update [simp]: "timed_thrust (rls_update thr est_a s) = timed_thrust s"
  by (simp add: rls_update_def Let_def)

lemma rho2_rls_update [simp]: "rho2 (rls_update thr est_a s) = rho2 s"
  by (simp add: rls_update_def Let_def)

lemma thr2acc_rls_update:
  "thr2acc (rls_update thr est_a s) =
     thr2acc s + 1 / (rho2 s + thr * P s * thr) * P s * thr * (v2 est_a - thr * thr2acc s)"
  by (simp add: rls_update_def Let_def)

lemma P_rls_update:
  "P (rls_update thr est_a s) =
     (1 - 1 / (rho2 s + thr * P s * thr) * P s * thr * thr) * P s / rho2 s"
  by (simp add: rls_update_def Let_def)

lemma P_rls_update_quotient:
  assumes "rho2 s \<noteq> 0" and "rho2 s + thr * P s * thr \<noteq> 0"
  shows "P (rls_update thr est_a s) = P s / (rho2 s + thr * P s * thr)"
proof -
  let ?D = "rho2 s + thr * P s * thr"
  have "1 - 1 / ?D * P s * thr * thr = rho2 s / ?D"
    using assms(2) by (simp add: field_simps)
  then have "P (rls_update thr est_a s) = rho2 s / ?D * P s / rho2 s"
    by (simp only: P_rls_update)
  also have "\<dots> = P s / ?D"
    using assms(1) by simp
  finally show ?thesis .
qed

lemma estimateThrustModel_True:
  assumes "estimateThrustModel t_now est_a par s = (True, s')"
      and "dropWhile (too_old t_now) (timed_thrust s) = t_t # rest"
  shows "s' = rls_update (snd t_t) est_a (s\<lparr>timed_thrust := rest\<rparr>)"
  using assms by (simp add: estimateThrustModel_scan [of t_now est_a par s] split: if_splits)

lemma estimateThrustModel_False:
  assumes "estimateThrustModel t_now est_a par s = (False, s')"
  shows "s' = s\<lparr>timed_thrust := dropWhile (too_old t_now) (timed_thrust s)\<rparr>"
proof (cases "dropWhile (too_old t_now) (timed_thrust s)")
  case Nil
  with assms show ?thesis
    by (simp add: estimateThrustModel_scan [of t_now est_a par s] del: dropWhile_eq_Nil_conv)
next
  case (Cons t_t rest)
  with assms show ?thesis
    by (simp add: estimateThrustModel_scan [of t_now est_a par s] split: if_splits)
qed



section \<open>Lemmas on quaternions\<close>

lemma quat_times_inverse:
  assumes "squaredNorm a = 1"
  shows "quat_times a (quat_inverse a) = Quaterniond 1 0 0 0"
proof -
  have "qw a * qw a + qx a * qx a + qy a * qy a + qz a * qz a = 1"
    using assms by (simp add: squaredNorm_def)
  with assms show ?thesis
    by (simp add: quat_times_def quat_inverse_def)
qed

lemma quat_times_one: "quat_times (Quaterniond 1 0 0 0) q = q"
  by (cases q) (simp add: quat_times_def)

lemma quat_frame_correction:
  "squaredNorm a = 1 \<Longrightarrow> quat_times (quat_times a (quat_inverse a)) q = q"
  by (simp add: quat_times_inverse quat_times_one)

section \<open>Lemmas on the control laws\<close>

lemma pop_over_100_drop: "pop_over_100 q = drop (length q - 100) q"
proof (induction q rule: pop_over_100.induct)
  case (1 q)
  show ?case
  proof (cases "length q > 100")
    case True
    then obtain x xs where q: "q = x # xs" by (cases q) auto
    with True have "length q - 100 = Suc (length xs - 100)" by simp
    then have "drop (length q - 100) q = drop (length xs - 100) xs"
      using q by simp
    moreover have "pop_over_100 q = pop_over_100 xs"
      using True q by (subst pop_over_100.simps) simp
    moreover have "pop_over_100 xs = drop (length xs - 100) xs"
      using 1 True q by simp
    ultimately show ?thesis by simp
  next
    case False
    then show ?thesis by (subst pop_over_100.simps) simp
  qed
qed

lemma length_pop_over_100: "length (pop_over_100 q) \<le> 100"
  by (simp add: pop_over_100_drop)

lemma LinearControl_state:
  "snd (snd (LinearControl_calculateControl t_now des odom imu u s)) =
     s\<lparr>debug_msg := fst (LinearControl_calculateControl t_now des odom imu u s),
       timed_thrust := pop_over_100 (timed_thrust s @
          [(t_now, u_thrust (fst (snd (LinearControl_calculateControl t_now des odom imu u s))))])\<rparr>"
  by (simp add: LinearControl_calculateControl_def Let_def push_timed_thrust_def)

lemma GeometricControl_state:
  "snd (snd (GeometricControl_calculateControl t_now des odom imu u s)) =
     s\<lparr>debug_msg := fst (GeometricControl_calculateControl t_now des odom imu u s),
       timed_thrust := pop_over_100 (timed_thrust s @
          [(t_now, u_thrust (fst (snd (GeometricControl_calculateControl t_now des odom imu u s))))])\<rparr>"
  by (simp add: GeometricControl_calculateControl_def Let_def push_timed_thrust_def)

lemma calculateControl_state:
  "snd (snd (calculateControl law t_now des odom imu u s)) =
     s\<lparr>debug_msg := fst (calculateControl law t_now des odom imu u s),
       timed_thrust := pop_over_100 (timed_thrust s @
          [(t_now, u_thrust (fst (snd (calculateControl law t_now des odom imu u s))))])\<rparr>"
  by (cases law) (simp_all add: calculateControl_def LinearControl_state GeometricControl_state)

lemma LinearControl_thrust:
  "u_thrust (fst (snd (LinearControl_calculateControl t_now des odom imu u s))) =
     v2 (compute_des_acc s des odom) / thr2acc s"
  by (simp add: LinearControl_calculateControl_def Let_def computeDesiredCollectiveThrustSignal_def)

lemma GeometricControl_thrust:
  "u_thrust (fst (snd (GeometricControl_calculateControl t_now des odom imu u s))) =
     dot (compute_des_acc s des odom) (col2 (toRotationMatrix (odom_q odom))) / thr2acc s"
  by (simp add: GeometricControl_calculateControl_def Let_def)

lemma LinearControl_u_q:
  "u_q (fst (snd (LinearControl_calculateControl t_now des odom imu u s))) =
     quat_times (quat_times (imu_q imu) (quat_inverse (odom_q odom)))
       (LinearControl_q s des odom (compute_des_acc s des odom))"
  by (simp add: LinearControl_calculateControl_def Let_def)

lemma GeometricControl_u_q:
  "u_q (fst (snd (GeometricControl_calculateControl t_now des odom imu u s))) =
     quat_times (quat_times (imu_q imu) (quat_inverse (odom_q odom)))
       (Quaterniond_of_matrix (GeometricControl_R_des des (compute_des_acc s des odom)))"
  by (simp add: GeometricControl_calculateControl_def Let_def)

lemma compute_des_acc_hover:
  assumes "des_v des = odom_v odom" and "des_p des = odom_p odom"
      and "des_a des = Vector3d 0 0 0"
  shows "compute_des_acc s des odom = Vector3d 0 0 (gra (param s))"
  using assms
  by (simp add: compute_des_acc_def Let_def vadd_def vsub_def asDiagonal_times_def)

lemma drop_pop_aux:
  assumes "k = length q - 100"
  shows "drop (length (drop k q @ xs) - 100) (drop k q @ xs) =
         drop (length (q @ xs) - 100) (q @ xs)"
proof -
  have a: "drop k q @ xs = drop k (q @ xs)"
    by (simp add: assms)
  have b: "length (drop k (q @ xs)) - 100 + k = length (q @ xs) - 100"
    by (simp add: assms)
  show ?thesis
    by (simp only: a drop_drop b)
qed

lemma drop_pop:
  "drop (length (drop (length q - 100) q @ xs) - 100) (drop (length q - 100) q @ xs) =
   drop (length (q @ xs) - 100) (q @ xs)"
  by (rule drop_pop_aux [OF refl])

lemma calculateControl_thrust_indep:
  "param s' = param s \<Longrightarrow> thr2acc s' = thr2acc s \<Longrightarrow>
   u_thrust (fst (snd (calculateControl law t_now des odom imu u' s'))) =
   u_thrust (fst (snd (calculateControl law t_now des odom imu u s)))"
  by (cases law)
    (simp_all add: calculateControl_def LinearControl_thrust GeometricControl_thrust
      compute_des_acc_def)

lemma sample_of_indep:
  "param s' = param s \<Longrightarrow> thr2acc s' = thr2acc s \<Longrightarrow> sample_of law u' s' c = sample_of law u s c"
  by (cases c) (simp add: sample_of_def calculateControl_thrust_indep [of s' s])

lemma run_cycles_history:
  "timed_thrust (snd (run_cycles law cycles u s)) =
     drop (length (timed_thrust s @ map (sample_of law u s) cycles) - 100)
       (timed_thrust s @ map (sample_of law u s) cycles) \<and>
   param (snd (run_cycles law cycles u s)) = param s \<and>
   thr2acc (snd (run_cycles law cycles u s)) = thr2acc s \<and>
   P (snd (run_cycles law cycles u s)) = P s"
  if "length (timed_thrust s) \<le> 100"
  using that
proof (induction cycles arbitrary: u s)
  case Nil
  then show ?case by simp
next
  case (Cons c cycles)
  obtain t_now des odom imu where c: "c = (t_now, des, odom, imu)"
    by (cases c) auto
  obtain d u' s' where r: "calculateControl law t_now des odom imu u s = (d, u', s')"
    by (cases "calculateControl law t_now des odom imu u s") auto
  have s': "s' = s\<lparr>debug_msg := d, timed_thrust :=
      pop_over_100 (timed_thrust s @ [sample_of law u s c])\<rparr>"
    using calculateControl_state [of law t_now des odom imu u s] r
    by (simp add: sample_of_def c)
  then have len: "length (timed_thrust s') \<le> 100"
    by (simp add: length_pop_over_100)
  have indep: "map (sample_of law u' s') cycles = map (sample_of law u s) cycles"
    by (intro map_cong refl sample_of_indep) (simp_all add: s')
  have run: "run_cycles law (c # cycles) u s = run_cycles law cycles u' s'"
    using r c by simp
  have q: "timed_thrust s' =
      drop (length (timed_thrust s @ [sample_of law u s c]) - 100)
        (timed_thrust s @ [sample_of law u s c])"
    using s' by (simp add: pop_over_100_drop)
  have d: "drop (length (timed_thrust s' @ map (sample_of law u s) cycles) - 100)
          (timed_thrust s' @ map (sample_of law u s) cycles) =
        drop (length ((timed_thrust s @ [sample_of law u s c]) @ map (sample_of law u s) cycles) - 100)
          ((timed_thrust s @ [sample_of law u s c]) @ map (sample_of law u s) cycles)"
    unfolding q by (rule drop_pop)
  have app: "(timed_thrust s @ [sample_of law u s c]) @ map (sample_of law u s) cycles =
      timed_thrust s @ map (sample_of law u s) (c # cycles)"
    by simp
  from Cons.IH [OF len, of u']
  have "timed_thrust (snd (run_cycles law cycles u' s')) =
      drop (length (timed_thrust s' @ map (sample_of law u s) cycles) - 100)
        (timed_thrust s' @ map (sample_of law u s) cycles)"
    and "param (snd (run_cycles law cycles u' s')) = param s'"
    and "thr2acc (snd (run_cycles law cycles u' s')) = thr2acc s'"
    and "P (snd (run_cycles law cycles u' s')) = P s'"
    by (simp_all only: indep)
  then show ?case
    unfolding run d app by (simp_all add: s')
qed



section \<open>Evaluation of the examples\<close>

lemmas example_defs = example_ctrl_def example_param_def example_des_def example_odom_def
  example_imu_def example_u_def

lemma example_update:
  "estimateThrustModel 40000000 est_a example_param (example_ctrl [(0, 1 / 2)]) =
     (True, rls_update (1 / 2) est_a (example_ctrl []))"
  by (simp add: estimateThrustModel_scan example_ctrl_def too_old_iff too_young_iff)




section \<open>The claims\<close>




text \<open>
  C2.  When \<open>estimateThrustModel\<close> returns true, and \<open>thr\<close> is the thrust of the
  sample it has used (the first one that is less than 45 ms old), the new gain and the
  new covariance are those of the least squares step: with
  \<open>gamma = 1 / (rho2 + thr * P * thr)\<close> and \<open>K = gamma * P * thr\<close>, the gain becomes
  \<open>thr2acc + K * (est_a(2) - thr * thr2acc)\<close> and the covariance
  \<open>(1 - K * thr) * P / rho2\<close>.  The two divisors are taken to be nonzero.
\<close>

theorem estimateThrustModel_rls_step:
  assumes "estimateThrustModel t_now est_a par s = (True, s')"
      and "dropWhile (too_old t_now) (timed_thrust s) = (t, thr) # rest"
      and "rho2 s \<noteq> 0" and "rho2 s + thr * P s * thr \<noteq> 0"
      and "gamma = 1 / (rho2 s + thr * P s * thr)" and "K = gamma * P s * thr"
  shows "thr2acc s' = thr2acc s + K * (v2 est_a - thr * thr2acc s) \<and>
         P s' = (1 - K * thr) * P s / rho2 s \<and>
         timed_thrust s' = rest \<and> rho2 s' = rho2 s"
  using estimateThrustModel_True [OF assms(1,2)] assms(5,6)
  by (simp add: thr2acc_rls_update P_rls_update)

text \<open>
  One sample with the thrust \<open>1 / 2\<close>, 40 ms old, and the measured acceleration \<open>12\<close>:
  \<open>gamma = 4000 / 3993\<close> and \<open>K = 2 / 3993\<close>.
\<close>

theorem estimateThrustModel_rls_step_witness:
  "fst (estimateThrustModel 40000000 (Vector3d 0 0 12) example_param (example_ctrl [(0, 1 / 2)])) \<and>
   thr2acc (snd (estimateThrustModel 40000000 (Vector3d 0 0 12) example_param
       (example_ctrl [(0, 1 / 2)]))) = 20 + 4 / 3993 \<and>
   P (snd (estimateThrustModel 40000000 (Vector3d 0 0 12) example_param
       (example_ctrl [(0, 1 / 2)]))) = 4 / 3993"
  using estimateThrustModel_rls_step [where t_now = 40000000 and est_a = "Vector3d 0 0 12" and par = example_param
      and s = "example_ctrl [(0, 1 / 2)]" and s' = "rls_update (1 / 2) (Vector3d 0 0 12) (example_ctrl [])"
      and t = 0 and thr = "1 / 2" and rest = "[]" and gamma = "4000 / 3993" and K = "2 / 3993"]
  by (simp add: example_update) (simp add: example_ctrl_def too_old_iff)

text \<open>
  C3.  After every call of \<open>calculateControl\<close>, of either control law, the history
  holds at most 100 samples.  A run of 150 calls on an empty history leaves exactly 100
  samples: those of the last 100 calls, in their order.
\<close>

theorem timed_thrust_bounded:
  "length (timed_thrust (snd (snd (calculateControl law t_now des odom imu u s)))) \<le> 100 \<and>
   (timed_thrust s = [] \<and> length cycles = 150 \<longrightarrow>
      length (timed_thrust (snd (run_cycles law cycles u s))) = 100 \<and>
      timed_thrust (snd (run_cycles law cycles u s)) = drop 50 (map (sample_of law u s) cycles))"
proof (intro conjI impI)
  show "length (timed_thrust (snd (snd (calculateControl law t_now des odom imu u s)))) \<le> 100"
    by (subst calculateControl_state) (simp add: length_pop_over_100)
next
  assume a: "timed_thrust s = [] \<and> length cycles = 150"
  then have "length (timed_thrust s) \<le> 100" by simp
  from run_cycles_history [OF this, of law cycles u] a
  show h: "timed_thrust (snd (run_cycles law cycles u s)) = drop 50 (map (sample_of law u s) cycles)"
    by simp
  show "length (timed_thrust (snd (run_cycles law cycles u s))) = 100"
    unfolding h using a by simp
qed

text \<open>A run of 150 cycles of the linear law, 10 ms apart, on an empty history.\<close>

theorem timed_thrust_bounded_witness:
  "timed_thrust (example_ctrl []) = [] \<and>
   length (map (\<lambda>n. (10000000 * int n, example_des (Vector3d 0 0 0),
       example_odom (Quaterniond 1 0 0 0), example_imu (Quaterniond 1 0 0 0))) [0..<150]) = 150 \<and>
   length (timed_thrust (snd (run_cycles LinearControl
     (map (\<lambda>n. (10000000 * int n, example_des (Vector3d 0 0 0),
       example_odom (Quaterniond 1 0 0 0), example_imu (Quaterniond 1 0 0 0))) [0..<150])
     example_u (example_ctrl [])))) = 100 \<and>
   map fst (timed_thrust (snd (run_cycles LinearControl
     (map (\<lambda>n. (10000000 * int n, example_des (Vector3d 0 0 0),
       example_odom (Quaterniond 1 0 0 0), example_imu (Quaterniond 1 0 0 0))) [0..<150])
     example_u (example_ctrl [])))) = map (\<lambda>n. 10000000 * int n) [50..<150]"
  using timed_thrust_bounded [of LinearControl 0 "example_des (Vector3d 0 0 0)" "example_odom (Quaterniond 1 0 0 0)"
      "example_imu (Quaterniond 1 0 0 0)" example_u "example_ctrl []"
      "map (\<lambda>n. (10000000 * int n, example_des (Vector3d 0 0 0),
       example_odom (Quaterniond 1 0 0 0), example_imu (Quaterniond 1 0 0 0))) [0..<150]"]
  by (simp add: example_ctrl_def drop_map sample_of_def comp_def del: upt_rec_numeral)

text \<open>
  C4.  When the orientation of the IMU equals the orientation of the odometry, and it is
  a unit quaternion, the attitude \<open>u.q\<close> that either control law returns is the
  attitude \<open>q\<close> that it has built before the frame correction.
\<close>

theorem frame_correction_identity:
  assumes "imu_q imu = odom_q odom" and "squaredNorm (odom_q odom) = 1"
  shows "u_q (fst (snd (LinearControl_calculateControl t_now des odom imu u s))) =
           LinearControl_q s des odom (compute_des_acc s des odom) \<and>
         u_q (fst (snd (GeometricControl_calculateControl t_now des odom imu u s))) =
           Quaterniond_of_matrix (GeometricControl_R_des des (compute_des_acc s des odom))"
  using assms by (simp add: LinearControl_u_q GeometricControl_u_q quat_frame_correction)

text \<open>Both orientations are the rotation with \<open>w = 3 / 5\<close> and \<open>z = 4 / 5\<close>.\<close>

theorem frame_correction_identity_witness:
  "imu_q (example_imu (Quaterniond (3 / 5) 0 0 (4 / 5))) =
     odom_q (example_odom (Quaterniond (3 / 5) 0 0 (4 / 5))) \<and>
   squaredNorm (odom_q (example_odom (Quaterniond (3 / 5) 0 0 (4 / 5)))) = 1 \<and>
   u_q (fst (snd (LinearControl_calculateControl 0 (example_des (Vector3d 1 0 0))
       (example_odom (Quaterniond (3 / 5) 0 0 (4 / 5))) (example_imu (Quaterniond (3 / 5) 0 0 (4 / 5)))
       example_u (example_ctrl [])))) =
     LinearControl_q (example_ctrl []) (example_des (Vector3d 1 0 0))
       (example_odom (Quaterniond (3 / 5) 0 0 (4 / 5))) (Vector3d 1 0 10) \<and>
   u_q (fst (snd (GeometricControl_calculateControl 0 (example_des (Vector3d 1 0 0))
       (example_odom (Quaterniond (3 / 5) 0 0 (4 / 5))) (example_imu (Quaterniond (3 / 5) 0 0 (4 / 5)))
       example_u (example_ctrl [])))) =
     Quaterniond_of_matrix (GeometricControl_R_des (example_des (Vector3d 1 0 0)) (Vector3d 1 0 10))"
proof -
  let ?q = "Quaterniond (3 / 5) 0 0 (4 / 5)"
  have a: "imu_q (example_imu ?q) = odom_q (example_odom ?q)"
    by (simp add: example_imu_def example_odom_def)
  have b: "squaredNorm (odom_q (example_odom ?q)) = 1"
    by (simp add: example_odom_def squaredNorm_def)
  have c: "compute_des_acc (example_ctrl []) (example_des (Vector3d 1 0 0)) (example_odom ?q) =
      Vector3d 1 0 10"
    by (simp add: compute_des_acc_def Let_def example_defs vadd_def vsub_def asDiagonal_times_def)
  from frame_correction_identity [OF a b, of 0 "example_des (Vector3d 1 0 0)" example_u "example_ctrl []"] a b
  show ?thesis by (simp only: c simp_thms)
qed

text \<open>
  C5, as amended.  Let the desired velocity and position equal the measured ones, the
  desired acceleration be zero and the gain be \<open>gra / hover_percentage\<close>, with
  \<open>gra\<close> and \<open>hover_percentage\<close> nonzero.  Then the thrust of the linear law is
  \<open>hover_percentage\<close>.  The thrust of the geometric law is \<open>hover_percentage\<close> times
  \<open>1 - 2 * (x * x + y * y)\<close>, where \<open>x\<close> and \<open>y\<close> are coefficients of the orientation of
  the odometry: the geometric law projects the desired acceleration onto the body axis
  that the odometry measures, so its thrust is \<open>hover_percentage\<close> when the vehicle is
  level (\<open>x = y = 0\<close>).
\<close>

theorem hover_thrust:
  assumes "des_v des = odom_v odom" and "des_p des = odom_p odom"
      and "des_a des = Vector3d 0 0 0"
      and "thr2acc s = gra (param s) / hover_percentage (param s)"
      and "gra (param s) \<noteq> 0" and "hover_percentage (param s) \<noteq> 0"
  shows "u_thrust (fst (snd (LinearControl_calculateControl t_now des odom imu u s))) =
           hover_percentage (param s) \<and>
         u_thrust (fst (snd (GeometricControl_calculateControl t_now des odom imu u s))) =
           hover_percentage (param s) *
             (1 - 2 * (qx (odom_q odom) * qx (odom_q odom) + qy (odom_q odom) * qy (odom_q odom)))"
proof -
  let ?g = "gra (param s)" and ?h = "hover_percentage (param s)"
  have acc: "compute_des_acc s des odom = Vector3d 0 0 ?g"
    using assms(1-3) by (rule compute_des_acc_hover)
  have q: "?g / (?g / ?h) = ?h"
    using assms(5,6) by simp
  have "u_thrust (fst (snd (LinearControl_calculateControl t_now des odom imu u s))) = ?h"
    using q by (simp add: LinearControl_thrust acc assms(4))
  moreover
  have "dot (Vector3d 0 0 ?g) (col2 (toRotationMatrix (odom_q odom))) =
      ?g * (1 - 2 * (qx (odom_q odom) * qx (odom_q odom) + qy (odom_q odom) * qy (odom_q odom)))"
    by (simp add: toRotationMatrix_def Let_def dot_def algebra_simps)
  then have "u_thrust (fst (snd (GeometricControl_calculateControl t_now des odom imu u s))) =
      ?g * (1 - 2 * (qx (odom_q odom) * qx (odom_q odom) + qy (odom_q odom) * qy (odom_q odom))) /
        (?g / ?h)"
    by (simp only: GeometricControl_thrust acc assms(4))
  then have "u_thrust (fst (snd (GeometricControl_calculateControl t_now des odom imu u s))) =
      ?h * (1 - 2 * (qx (odom_q odom) * qx (odom_q odom) + qy (odom_q odom) * qy (odom_q odom)))"
    using assms(5,6) by simp
  ultimately show ?thesis by simp
qed

text \<open>
  The claim C5 as it is written fails for the geometric law: the odometry is tilted by the
  unit quaternion with \<open>w = 12 / 13\<close> and \<open>x = 5 / 13\<close>, all conditions of the claim
  hold, and the thrust is \<open>119 / 338\<close>, while \<open>hover_percentage\<close> is \<open>1 / 2\<close>.
\<close>

theorem hover_thrust_tilted_counterexample:
  "des_v (example_des (Vector3d 0 0 0)) = odom_v (example_odom (Quaterniond (12 / 13) (5 / 13) 0 0)) \<and>
   des_p (example_des (Vector3d 0 0 0)) = odom_p (example_odom (Quaterniond (12 / 13) (5 / 13) 0 0)) \<and>
   des_a (example_des (Vector3d 0 0 0)) = Vector3d 0 0 0 \<and>
   thr2acc (example_ctrl []) =
     gra (param (example_ctrl [])) / hover_percentage (param (example_ctrl [])) \<and>
   u_thrust (fst (snd (GeometricControl_calculateControl 0 (example_des (Vector3d 0 0 0))
       (example_odom (Quaterniond (12 / 13) (5 / 13) 0 0))
       (example_imu (Quaterniond (12 / 13) (5 / 13) 0 0)) example_u (example_ctrl [])))) = 119 / 338 \<and>
   hover_percentage (param (example_ctrl [])) = 1 / 2"
  by (simp add: GeometricControl_thrust compute_des_acc_def Let_def example_defs vadd_def vsub_def
      asDiagonal_times_def toRotationMatrix_def dot_def)

text \<open>The same tilted input: the linear law gives \<open>1 / 2\<close>.\<close>

theorem hover_thrust_witness:
  "des_v (example_des (Vector3d 0 0 0)) = odom_v (example_odom (Quaterniond (12 / 13) (5 / 13) 0 0)) \<and>
   des_p (example_des (Vector3d 0 0 0)) = odom_p (example_odom (Quaterniond (12 / 13) (5 / 13) 0 0)) \<and>
   des_a (example_des (Vector3d 0 0 0)) = Vector3d 0 0 0 \<and>
   thr2acc (example_ctrl []) =
     gra (param (example_ctrl [])) / hover_percentage (param (example_ctrl [])) \<and>
   gra (param (example_ctrl [])) \<noteq> 0 \<and> hover_percentage (param (example_ctrl [])) \<noteq> 0 \<and>
   u_thrust (fst (snd (LinearControl_calculateControl 0 (example_des (Vector3d 0 0 0))
       (example_odom (Quaterniond (12 / 13) (5 / 13) 0 0))
       (example_imu (Quaterniond (12 / 13) (5 / 13) 0 0)) example_u (example_ctrl [])))) = 1 / 2 \<and>
   u_thrust (fst (snd (GeometricControl_calculateControl 0 (example_des (Vector3d 0 0 0))
       (example_odom (Quaterniond (12 / 13) (5 / 13) 0 0))
       (example_imu (Quaterniond (12 / 13) (5 / 13) 0 0)) example_u (example_ctrl [])))) =
     1 / 2 * (1 - 2 * (5 / 13 * (5 / 13) + 0 * 0))"
proof -
  let ?des = "example_des (Vector3d 0 0 0)"
  let ?odom = "example_odom (Quaterniond (12 / 13) (5 / 13) 0 0)"
  let ?s = "example_ctrl []"
  have h: "des_v ?des = odom_v ?odom" "des_p ?des = odom_p ?odom" "des_a ?des = Vector3d 0 0 0"
    "thr2acc ?s = gra (param ?s) / hover_percentage (param ?s)"
    "gra (param ?s) \<noteq> 0" "hover_percentage (param ?s) \<noteq> 0"
    by (simp_all add: example_defs)
  have v: "hover_percentage (param ?s) = 1 / 2" "qx (odom_q ?odom) = 5 / 13" "qy (odom_q ?odom) = 0"
    by (simp_all add: example_defs)
  from hover_thrust [OF h, of 0 "example_imu (Quaterniond (12 / 13) (5 / 13) 0 0)" example_u] h
  show ?thesis by (simp only: v simp_thms)
qed

text \<open>
  C6, as amended.  Neither control law tests the gain, and neither has a way to report
  an error.  With a negative gain the thrust is still the quotient by the gain, of the
  vertical desired acceleration in the linear law and of the projection of the desired
  acceleration onto the body axis in the geometric law; it is negative whenever that
  numerator is positive; and it is pushed, with the time of the call, into the history.
\<close>

theorem negative_gain_thrust:
  assumes "thr2acc s < 0"
  shows "u_thrust (fst (snd (LinearControl_calculateControl t_now des odom imu u s))) =
           v2 (compute_des_acc s des odom) / thr2acc s \<and>
         u_thrust (fst (snd (GeometricControl_calculateControl t_now des odom imu u s))) =
           dot (compute_des_acc s des odom) (col2 (toRotationMatrix (odom_q odom))) / thr2acc s \<and>
         (0 < v2 (compute_des_acc s des odom) \<longrightarrow>
            u_thrust (fst (snd (LinearControl_calculateControl t_now des odom imu u s))) < 0) \<and>
         (0 < dot (compute_des_acc s des odom) (col2 (toRotationMatrix (odom_q odom))) \<longrightarrow>
            u_thrust (fst (snd (GeometricControl_calculateControl t_now des odom imu u s))) < 0) \<and>
         timed_thrust (snd (snd (LinearControl_calculateControl t_now des odom imu u s))) =
           drop (length (timed_thrust s) + 1 - 100)
             (timed_thrust s @ [(t_now, v2 (compute_des_acc s des odom) / thr2acc s)]) \<and>
         timed_thrust (snd (snd (GeometricControl_calculateControl t_now des odom imu u s))) =
           drop (length (timed_thrust s) + 1 - 100)
             (timed_thrust s @
              [(t_now,
                dot (compute_des_acc s des odom) (col2 (toRotationMatrix (odom_q odom))) / thr2acc s)])"
proof -
  have "timed_thrust (snd (snd (LinearControl_calculateControl t_now des odom imu u s))) =
      pop_over_100 (timed_thrust s @
        [(t_now, u_thrust (fst (snd (LinearControl_calculateControl t_now des odom imu u s))))])"
    by (subst LinearControl_state) simp
  moreover
  have "timed_thrust (snd (snd (GeometricControl_calculateControl t_now des odom imu u s))) =
      pop_over_100 (timed_thrust s @
        [(t_now, u_thrust (fst (snd (GeometricControl_calculateControl t_now des odom imu u s))))])"
    by (subst GeometricControl_state) simp
  ultimately show ?thesis
    using assms
    by (simp add: LinearControl_thrust GeometricControl_thrust divide_pos_neg pop_over_100_drop)
qed

text \<open>
  The claim C6 as it is written fails: with the gain \<open>-20\<close> and a hover input the linear
  law returns the thrust \<open>-1 / 2\<close> and pushes it into the history.
\<close>

theorem negative_gain_counterexample:
  "thr2acc ((example_ctrl [])\<lparr>thr2acc := - 20\<rparr>) \<le> 0 \<and>
   u_thrust (fst (snd (LinearControl_calculateControl 0 (example_des (Vector3d 0 0 0))
       (example_odom (Quaterniond 1 0 0 0)) (example_imu (Quaterniond 1 0 0 0)) example_u
       ((example_ctrl [])\<lparr>thr2acc := - 20\<rparr>)))) = - 1 / 2 \<and>
   timed_thrust (snd (snd (LinearControl_calculateControl 0 (example_des (Vector3d 0 0 0))
       (example_odom (Quaterniond 1 0 0 0)) (example_imu (Quaterniond 1 0 0 0)) example_u
       ((example_ctrl [])\<lparr>thr2acc := - 20\<rparr>)))) = [(0, - 1 / 2)]"
proof -
  let ?s = "(example_ctrl [])\<lparr>thr2acc := - 20\<rparr>"
  let ?r = "LinearControl_calculateControl 0 (example_des (Vector3d 0 0 0))
       (example_odom (Quaterniond 1 0 0 0)) (example_imu (Quaterniond 1 0 0 0)) example_u ?s"
  have t: "u_thrust (fst (snd ?r)) = - 1 / 2"
    by (simp add: LinearControl_thrust compute_des_acc_def Let_def example_defs vadd_def vsub_def
      asDiagonal_times_def)
  have "timed_thrust (snd (snd ?r)) = pop_over_100 (timed_thrust ?s @ [(0, u_thrust (fst (snd ?r)))])"
    by (subst LinearControl_state) simp
  also have "\<dots> = [(0, - 1 / 2)]"
    by (simp only: t) (simp add: pop_over_100_drop example_ctrl_def)
  finally show ?thesis using t by (simp add: example_ctrl_def)
qed

text \<open>The same input, with the gain \<open>-20\<close>: the thrust \<open>-1 / 2\<close> enters the history.\<close>

theorem negative_gain_thrust_witness:
  "thr2acc ((example_ctrl [])\<lparr>thr2acc := - 20\<rparr>) < 0 \<and>
   0 < v2 (compute_des_acc ((example_ctrl [])\<lparr>thr2acc := - 20\<rparr>) (example_des (Vector3d 0 0 0))
       (example_odom (Quaterniond 1 0 0 0))) \<and>
   u_thrust (fst (snd (LinearControl_calculateControl 0 (example_des (Vector3d 0 0 0))
       (example_odom (Quaterniond 1 0 0 0)) (example_imu (Quaterniond 1 0 0 0)) example_u
       ((example_ctrl [])\<lparr>thr2acc := - 20\<rparr>)))) < 0 \<and>
   timed_thrust (snd (snd (LinearControl_calculateControl 7 (example_des (Vector3d 0 0 0))
       (example_odom (Quaterniond 1 0 0 0)) (example_imu (Quaterniond 1 0 0 0)) example_u
       ((example_ctrl [(3, 1 / 4)])\<lparr>thr2acc := - 20\<rparr>)))) = [(3, 1 / 4), (7, - 1 / 2)]"
proof -
  let ?s = "(example_ctrl [])\<lparr>thr2acc := - 20\<rparr>"
  let ?s' = "(example_ctrl [(3, 1 / 4)])\<lparr>thr2acc := - 20\<rparr>"
  have a: "thr2acc ?s < 0" and a': "thr2acc ?s' < 0" by simp_all
  have b: "0 < v2 (compute_des_acc ?s (example_des (Vector3d 0 0 0))
       (example_odom (Quaterniond 1 0 0 0)))"
    by (simp add: compute_des_acc_def Let_def example_defs vadd_def vsub_def asDiagonal_times_def)
  have c: "v2 (compute_des_acc ?s' (example_des (Vector3d 0 0 0))
       (example_odom (Quaterniond 1 0 0 0))) / thr2acc ?s' = - 1 / 2"
    by (simp add: compute_des_acc_def Let_def example_defs vadd_def vsub_def asDiagonal_times_def)
  from negative_gain_thrust [OF a, of 0 "example_des (Vector3d 0 0 0)"
      "example_odom (Quaterniond 1 0 0 0)" "example_imu (Quaterniond 1 0 0 0)" example_u] b
  have 1: "u_thrust (fst (snd (LinearControl_calculateControl 0 (example_des (Vector3d 0 0 0))
       (example_odom (Quaterniond 1 0 0 0)) (example_imu (Quaterniond 1 0 0 0)) example_u ?s))) < 0"
    by blast
  from negative_gain_thrust [OF a', of 7 "example_des (Vector3d 0 0 0)"
      "example_odom (Quaterniond 1 0 0 0)" "example_imu (Quaterniond 1 0 0 0)" example_u]
  have "timed_thrust (snd (snd (LinearControl_calculateControl 7 (example_des (Vector3d 0 0 0))
       (example_odom (Quaterniond 1 0 0 0)) (example_imu (Quaterniond 1 0 0 0)) example_u ?s'))) =
     drop (length (timed_thrust ?s') + 1 - 100)
       (timed_thrust ?s' @
        [(7, v2 (compute_des_acc ?s' (example_des (Vector3d 0 0 0))
           (example_odom (Quaterniond 1 0 0 0))) / thr2acc ?s')])"
    by blast
  then have 2: "timed_thrust (snd (snd (LinearControl_calculateControl 7 (example_des (Vector3d 0 0 0))
       (example_odom (Quaterniond 1 0 0 0)) (example_imu (Quaterniond 1 0 0 0)) example_u ?s'))) =
     [(3, 1 / 4), (7, - 1 / 2)]"
    unfolding c by (simp add: example_ctrl_def)
  from a b 1 2 show ?thesis by blast
qed




text \<open>
  C8, as amended.  Let \<open>0 < rho2 \<le> 1\<close> and the covariance \<open>P\<close> be non-negative
  before a call that returns true and uses the thrust \<open>thr\<close>.  Then the covariance after
  the call is non-negative; it is no greater than before when
  \<open>1 - rho2 \<le> thr * P * thr\<close>, which always holds for \<open>rho2 = 1\<close>; and it is greater
  than before when \<open>thr * P * thr < 1 - rho2\<close> and \<open>P\<close> is positive.
\<close>

theorem covariance_step:
  assumes "estimateThrustModel t_now est_a par s = (True, s')"
      and "dropWhile (too_old t_now) (timed_thrust s) = (t, thr) # rest"
      and "0 < rho2 s" and "rho2 s \<le> 1" and "0 \<le> P s"
  shows "0 \<le> P s' \<and>
         (1 - rho2 s \<le> thr * P s * thr \<longrightarrow> P s' \<le> P s) \<and>
         (thr * P s * thr < 1 - rho2 s \<and> 0 < P s \<longrightarrow> P s < P s')"
proof -
  let ?D = "rho2 s + thr * P s * thr"
  have "0 \<le> thr * P s * thr"
    using assms(5) by (simp add: mult.assoc mult.left_commute [of thr])
  with assms(3) have D: "0 < ?D" by linarith
  have s': "s' = rls_update thr est_a (s\<lparr>timed_thrust := rest\<rparr>)"
    using estimateThrustModel_True [OF assms(1,2)] by simp
  have "P s' = P (s\<lparr>timed_thrust := rest\<rparr>) /
      (rho2 (s\<lparr>timed_thrust := rest\<rparr>) + thr * P (s\<lparr>timed_thrust := rest\<rparr>) * thr)"
    unfolding s' using assms(3) D by (intro P_rls_update_quotient) simp_all
  then have eq: "P s' = P s / ?D" by simp
  have 1: "0 \<le> P s'" unfolding eq using assms(5) D by simp
  have 2: "P s' \<le> P s" if "1 - rho2 s \<le> thr * P s * thr"
  proof -
    from that have "1 \<le> ?D" by linarith
    then have "P s / ?D \<le> P s / 1"
      using assms(5) by (intro divide_left_mono) simp_all
    then show ?thesis by (simp add: eq)
  qed
  have 3: "P s < P s'" if "thr * P s * thr < 1 - rho2 s" and "0 < P s"
  proof -
    from that(1) have "?D < 1" by linarith
    with D that(2) have "P s / 1 < P s / ?D"
      by (intro divide_strict_left_mono) simp_all
    then show ?thesis by (simp add: eq)
  qed
  from 1 2 3 show ?thesis by blast
qed

text \<open>
  The claim C8 as it is written fails: with \<open>rho2 = 0.998\<close>, \<open>P = 1 / 1000\<close> and a sample
  of thrust \<open>1 / 2\<close> the update is made and the covariance grows to \<open>4 / 3993\<close>.
\<close>

theorem covariance_growth_counterexample:
  "0 < rho2 (example_ctrl [(0, 1 / 2)]) \<and> rho2 (example_ctrl [(0, 1 / 2)]) \<le> 1 \<and>
   fst (estimateThrustModel 40000000 (Vector3d 0 0 10) example_param (example_ctrl [(0, 1 / 2)])) \<and>
   P (example_ctrl [(0, 1 / 2)]) = 1 / 1000 \<and>
   P (snd (estimateThrustModel 40000000 (Vector3d 0 0 10) example_param
       (example_ctrl [(0, 1 / 2)]))) = 4 / 3993 \<and>
   \<bar>P (example_ctrl [(0, 1 / 2)])\<bar> <
     \<bar>P (snd (estimateThrustModel 40000000 (Vector3d 0 0 10) example_param
       (example_ctrl [(0, 1 / 2)])))\<bar>"
  by (simp add: example_update) (simp add: example_ctrl_def rls_update_def Let_def)

text \<open>The same sample with \<open>P = 1\<close>: the covariance does not grow.\<close>

theorem covariance_step_witness:
  "0 < rho2 ((example_ctrl [(0, 1 / 2)])\<lparr>P := 1\<rparr>) \<and>
   fst (estimateThrustModel 40000000 (Vector3d 0 0 10) example_param
       ((example_ctrl [(0, 1 / 2)])\<lparr>P := 1\<rparr>)) \<and>
   0 \<le> P (snd (estimateThrustModel 40000000 (Vector3d 0 0 10) example_param
       ((example_ctrl [(0, 1 / 2)])\<lparr>P := 1\<rparr>))) \<and>
   P (snd (estimateThrustModel 40000000 (Vector3d 0 0 10) example_param
       ((example_ctrl [(0, 1 / 2)])\<lparr>P := 1\<rparr>))) \<le> 1"
proof -
  let ?s = "(example_ctrl [(0, 1 / 2)])\<lparr>P := 1\<rparr>"
  let ?r = "estimateThrustModel 40000000 (Vector3d 0 0 10) example_param ?s"
  have r: "?r = (True, snd ?r)"
    by (simp add: estimateThrustModel_scan example_ctrl_def too_old_iff too_young_iff)
  have d: "dropWhile (too_old 40000000) (timed_thrust ?s) = (0, 1 / 2) # []"
    by (simp add: example_ctrl_def too_old_iff)
  have h: "0 < rho2 ?s" "rho2 ?s \<le> 1" "0 \<le> P ?s" "1 - rho2 ?s \<le> 1 / 2 * P ?s * (1 / 2)"
    by (simp_all add: example_ctrl_def)
  from covariance_step [OF r d h(1-3)] h(4) have "0 \<le> P (snd ?r) \<and> P (snd ?r) \<le> P ?s"
    by blast
  moreover have "P ?s = 1" by simp
  moreover have "fst ?r" by (subst r) simp
  ultimately show ?thesis using h(1) by simp
qed

text \<open>
  C9.  When \<open>estimateThrustModel\<close> returns false, the gain and the covariance are
  those before the call; of the whole object only the history may have changed, by the
  removal of the leading samples that are 45 ms old or more.
\<close>

theorem estimateThrustModel_false_keeps_mapping:
  assumes "estimateThrustModel t_now est_a par s = (False, s')"
  shows "thr2acc s' = thr2acc s \<and> P s' = P s \<and>
         s' = s\<lparr>timed_thrust := dropWhile (too_old t_now) (timed_thrust s)\<rparr>"
  using estimateThrustModel_False [OF assms] by simp

text \<open>One sample, 30 ms old: the call returns false and changes nothing.\<close>

theorem estimateThrustModel_false_keeps_mapping_witness:
  "estimateThrustModel 30000000 (Vector3d 0 0 10) example_param (example_ctrl [(0, 1 / 2)]) =
     (False, example_ctrl [(0, 1 / 2)]) \<and>
   thr2acc (example_ctrl [(0, 1 / 2)]) = 20 \<and> P (example_ctrl [(0, 1 / 2)]) = 1 / 1000"
proof -
  have r: "estimateThrustModel 30000000 (Vector3d 0 0 10) example_param (example_ctrl [(0, 1 / 2)]) =
     (False, example_ctrl [(0, 1 / 2)])"
    by (simp add: estimateThrustModel_scan example_ctrl_def too_old_iff too_young_iff)
  from estimateThrustModel_false_keeps_mapping [OF r] r show ?thesis
    by (simp add: example_ctrl_def)
qed

text \<open>
  C10.  A call of \<open>calculateControl\<close>, of either control law, leaves the gain and the
  covariance as they are.  Of the object it changes the debug message and the history:
  the sample of the time of the call and the thrust of the output is appended, and
  samples are removed from the front so that at most 100 are left.
\<close>

theorem calculateControl_keeps_mapping:
  "thr2acc (snd (snd (LinearControl_calculateControl t_now des odom imu u s))) = thr2acc s \<and>
   P (snd (snd (LinearControl_calculateControl t_now des odom imu u s))) = P s \<and>
   snd (snd (LinearControl_calculateControl t_now des odom imu u s)) =
     s\<lparr>debug_msg := fst (LinearControl_calculateControl t_now des odom imu u s),
       timed_thrust :=
         drop (length (timed_thrust s) + 1 - 100)
           (timed_thrust s @
            [(t_now, u_thrust (fst (snd (LinearControl_calculateControl t_now des odom imu u s))))])\<rparr> \<and>
   length (timed_thrust (snd (snd (LinearControl_calculateControl t_now des odom imu u s)))) \<le> 100 \<and>
   thr2acc (snd (snd (GeometricControl_calculateControl t_now des odom imu u s))) = thr2acc s \<and>
   P (snd (snd (GeometricControl_calculateControl t_now des odom imu u s))) = P s \<and>
   snd (snd (GeometricControl_calculateControl t_now des odom imu u s)) =
     s\<lparr>debug_msg := fst (GeometricControl_calculateControl t_now des odom imu u s),
       timed_thrust :=
         drop (length (timed_thrust s) + 1 - 100)
           (timed_thrust s @
            [(t_now, u_thrust (fst (snd (GeometricControl_calculateControl t_now des odom imu u s))))])\<rparr> \<and>
   length (timed_thrust (snd (snd (GeometricControl_calculateControl t_now des odom imu u s)))) \<le> 100"
proof -
  have *: "thr2acc s' = thr2acc s \<and> P s' = P s \<and>
        s' = s\<lparr>debug_msg := d,
               timed_thrust := drop (length (timed_thrust s) + 1 - 100) (timed_thrust s @ [x])\<rparr> \<and>
        length (timed_thrust s') \<le> 100"
    if "s' = s\<lparr>debug_msg := d, timed_thrust := pop_over_100 (timed_thrust s @ [x])\<rparr>"
    for d :: Px4ctrlDebug and x :: "ros_Time \<times> real" and s' :: ControlBase
    using that by (simp add: pop_over_100_drop)
  note L = * [OF LinearControl_state [of t_now des odom imu u s]]
  note G = * [OF GeometricControl_state [of t_now des odom imu u s]]
  from L G show ?thesis by blast
qed

text \<open>A call of the linear law with a hover input on a history of one sample.\<close>

theorem calculateControl_keeps_mapping_witness:
  "thr2acc (snd (snd (LinearControl_calculateControl 10000000 (example_des (Vector3d 0 0 0))
       (example_odom (Quaterniond 1 0 0 0)) (example_imu (Quaterniond 1 0 0 0)) example_u
       (example_ctrl [(0, 1 / 2)])))) = 20 \<and>
   P (snd (snd (LinearControl_calculateControl 10000000 (example_des (Vector3d 0 0 0))
       (example_odom (Quaterniond 1 0 0 0)) (example_imu (Quaterniond 1 0 0 0)) example_u
       (example_ctrl [(0, 1 / 2)])))) = 1 / 1000 \<and>
   timed_thrust (snd (snd (LinearControl_calculateControl 10000000 (example_des (Vector3d 0 0 0))
       (example_odom (Quaterniond 1 0 0 0)) (example_imu (Quaterniond 1 0 0 0)) example_u
       (example_ctrl [(0, 1 / 2)])))) = [(0, 1 / 2), (10000000, 1 / 2)]"
proof -
  let ?s = "example_ctrl [(0, 1 / 2)]"
  let ?r = "LinearControl_calculateControl 10000000 (example_des (Vector3d 0 0 0))
       (example_odom (Quaterniond 1 0 0 0)) (example_imu (Quaterniond 1 0 0 0)) example_u ?s"
  have t: "u_thrust (fst (snd ?r)) = 1 / 2"
    by (simp add: LinearControl_thrust compute_des_acc_def Let_def example_defs vadd_def vsub_def
      asDiagonal_times_def)
  from calculateControl_keeps_mapping [of 10000000 "example_des (Vector3d 0 0 0)" "example_odom (Quaterniond 1 0 0 0)"
      "example_imu (Quaterniond 1 0 0 0)" example_u ?s]
  have a: "thr2acc (snd (snd ?r)) = thr2acc ?s" and b: "P (snd (snd ?r)) = P ?s"
    and c: "snd (snd ?r) = ?s\<lparr>debug_msg := fst ?r,
       timed_thrust :=
         drop (length (timed_thrust ?s) + 1 - 100)
           (timed_thrust ?s @ [(10000000, u_thrust (fst (snd ?r)))])\<rparr>"
    by blast+
  have "timed_thrust (snd (snd ?r)) =
      drop (length (timed_thrust ?s) + 1 - 100) (timed_thrust ?s @ [(10000000, 1 / 2)])"
    by (subst c) (simp add: t)
  with a b show ?thesis
    by (simp add: example_ctrl_def)
qed

end
